theory Spec2Isabelle
  imports Complex_Main "HOL-Library.Sublist" "HOL-Library.Multiset"
begin

section \<open>The module generator: \<^verbatim>\<open>src/tools/generate-module.js\<close>\<close>

text \<open>
  The script reads one command-line argument, derives the name variants, creates a
  directory skeleton and writes one file per entry of the object literal \<^verbatim>\<open>files\<close>.
  Strings are byte lists. \<^verbatim>\<open>toUpperCase\<close> maps the letters a..z and is the script's
  function on ASCII names only; the statements about generated files are made for
  ASCII names.
\<close>

subsection \<open>Name variants\<close>

definition toUpperCase_char :: "char \<Rightarrow> char" where
  "toUpperCase_char c =
     (let n = (of_char c :: nat) in if 97 \<le> n \<and> n \<le> 122 then char_of (n - 32) else c)"

definition toUpperCase :: "string \<Rightarrow> string" where
  "toUpperCase str = map toUpperCase_char str"

text \<open>\<^verbatim>\<open>str.charAt(0).toUpperCase() + str.slice(1)\<close>; \<^verbatim>\<open>charAt(0)\<close> of the empty
  string is the empty string.\<close>

definition capitalize :: "string \<Rightarrow> string" where
  "capitalize str = toUpperCase (take 1 str) @ drop 1 str"

subsection \<open>\<^verbatim>\<open>path.join\<close>\<close>

text \<open>
  \<^verbatim>\<open>path.join\<close> belongs to the Node.js runtime, not to the repository. It is modelled
  here in its POSIX flavour: the non-empty arguments are joined with a slash and the
  result is normalised (empty and \<^verbatim>\<open>.\<close> segments dropped, \<^verbatim>\<open>..\<close> resolved against the
  preceding segment, a trailing slash kept).
\<close>

fun split_slash :: "string \<Rightarrow> string list" where
  "split_slash [] = [[]]"
| "split_slash (c # cs) =
     (if c = CHR ''/'' then [] # split_slash cs
      else (case split_slash cs of [] \<Rightarrow> [[c]] | seg # segs \<Rightarrow> (c # seg) # segs))"

fun join_slash :: "string list \<Rightarrow> string" where
  "join_slash [] = []"
| "join_slash [seg] = seg"
| "join_slash (seg # segs) = seg @ ''/'' @ join_slash segs"

definition normalize_step :: "bool \<Rightarrow> string list \<Rightarrow> string \<Rightarrow> string list" where
  "normalize_step allowAboveRoot res seg =
     (if seg = [] \<or> seg = ''.'' then res
      else if seg = ''..'' then
        (if res \<noteq> [] \<and> last res \<noteq> ''..'' then butlast res
         else if allowAboveRoot then res @ [''..''] else res)
      else res @ [seg])"

definition normalizeString :: "string \<Rightarrow> bool \<Rightarrow> string" where
  "normalizeString path allowAboveRoot =
     join_slash (foldl (normalize_step allowAboveRoot) [] (split_slash path))"

definition path_normalize :: "string \<Rightarrow> string" where
  "path_normalize path =
     (if path = [] then ''.''
      else
        let isAbsolute = (hd path = CHR ''/'');
            trailingSeparator = (last path = CHR ''/'');
            p = normalizeString path (\<not> isAbsolute)
        in if p = [] then (if isAbsolute then ''/'' else if trailingSeparator then ''./'' else ''.'')
           else
             let p' = (if trailingSeparator then p @ ''/'' else p)
             in if isAbsolute then ''/'' @ p' else p')"

definition path_join :: "string list \<Rightarrow> string" where
  "path_join args =
     (let joined = join_slash (filter (\<lambda>arg. arg \<noteq> []) args)
      in if joined = [] then ''.'' else path_normalize joined)"

subsection \<open>The generated file texts\<close>

text \<open>
  Every template literal of the script is a function of the two name variants it
  interpolates. A template is given line by line; \<open>unlines\<close> ends every line with a
  line feed, as the literal does (its closing backquote stands at the start of a line).
  The text is the one the literal denotes: \<^verbatim>\<open>\`\<close> and \<^verbatim>\<open>\${\<close> are already unescaped.
\<close>

definition unlines :: "string list \<Rightarrow> string" where
  "unlines ls = concat (map (\<lambda>l. l @ [CHR 0x0A]) ls)"

definition apostrophe :: string where
  "apostrophe = [CHR 0x27]"

definition domain_ts :: "string \<Rightarrow> string \<Rightarrow> string" where
  "domain_ts name Name = unlines
    [''export class '' @ Name @ '' {'',
     ''  id?: string;'',
     [],
     ''  createdAt?: Date;'',
     [],
     ''  updatedAt?: Date;'',
     [],
     ''  deletedAt?: Date;'',
     [],
     ''  constructor(partial: Partial<'' @ Name @ ''>) {'',
     ''    Object.assign(this, partial);'',
     ''  }'',
     ''}'']"

definition create_dto_ts :: "string \<Rightarrow> string \<Rightarrow> string" where
  "create_dto_ts name Name = unlines
    [''import { IsNotEmpty, IsString } from 'class-validator';'',
     [],
     ''export class Create'' @ Name @ ''Dto {'',
     ''  @IsNotEmpty()'',
     ''  @IsString()'',
     ''  name: string;'',
     ''}'']"

definition update_dto_ts :: "string \<Rightarrow> string \<Rightarrow> string" where
  "update_dto_ts name Name = unlines
    [''import { IsOptional, IsString } from 'class-validator';'',
     [],
     ''export class Update'' @ Name @ ''Dto {'',
     ''  @IsOptional()'',
     ''  @IsString()'',
     ''  name?: string;'',
     ''}'']"

definition filter_dto_ts :: "string \<Rightarrow> string \<Rightarrow> string" where
  "filter_dto_ts name Name = unlines
    [''import { IsOptional, IsString } from 'class-validator';'',
     '' import { PaginationDto } from 'src/common/dto/pagination.dto';'',
     [],
     ''export class Filter'' @ Name @ ''Dto extends PaginationDto {'',
     ''  @IsOptional()'',
     ''  @IsString()'',
     ''  search?: string;'',
     ''}'']"

definition entity_ts :: "string \<Rightarrow> string \<Rightarrow> string" where
  "entity_ts name Name = unlines
    [''import {'',
     ''  Entity,'',
     ''  PrimaryGeneratedColumn,'',
     ''  Column,'',
     ''  CreateDateColumn,'',
     ''  UpdateDateColumn,'',
     ''  DeleteDateColumn,'',
     ''  BaseEntity,'',
     ''} from 'typeorm';'',
     [],
     ''@Entity('' @ apostrophe @ name @ apostrophe @ '')'',
     ''export class '' @ Name @ ''Entity extends BaseEntity {'',
     ''  @PrimaryGeneratedColumn('uuid')'',
     ''  id: string;'',
     [],
     ''  @CreateDateColumn()'',
     ''  createdAt: Date;'',
     [],
     ''  @UpdateDateColumn()'',
     ''  updatedAt: Date;'',
     [],
     ''  @DeleteDateColumn({ nullable: true })'',
     ''  deletedAt?: Date;'',
     [],
     ''  constructor(data?: Partial<'' @ Name @ ''Entity>) {'',
     ''    super();'',
     ''    if (data) {'',
     ''      Object.assign(this, data);'',
     ''    }'',
     ''  }'',
     ''}'']"

definition repository_ts :: "string \<Rightarrow> string \<Rightarrow> string" where
  "repository_ts name Name = unlines
    [''import { '' @ Name @ ''Entity } from '../entities/'' @ name @ ''.entity';'',
     '' import { PaginatedResult } from 'src/common/dto/paginated-result.dto';'',
     [],
     ''export abstract class '' @ Name @ ''Repository {'',
     ''  abstract create(data: Partial<'' @ Name @ ''Entity>): Promise<'' @ Name @ ''Entity>;'',
     ''  abstract findAll(pagination: any): Promise<PaginatedResult<'' @ Name @ ''Entity>>;'',
     ''  abstract findById(id: string): Promise<'' @ Name @ ''Entity | null>;'',
     ''  abstract findWithFilter(filter: any): Promise<PaginatedResult<'' @ Name @ ''Entity>>;'',
     ''  abstract update(id: string, data: Partial<'' @ Name @ ''Entity>): Promise<'' @ Name @ ''Entity>;'',
     ''  abstract delete(id: string): Promise<void>;'',
     ''}'']"

definition repository_impl_ts :: "string \<Rightarrow> string \<Rightarrow> string" where
  "repository_impl_ts name Name = unlines
    [''import { Injectable } from '@nestjs/common';'',
     ''import { InjectRepository } from '@nestjs/typeorm';'',
     ''import { Repository, ILike } from 'typeorm';'',
     ''import { '' @ Name @ ''Entity } from '../entities/'' @ name @ ''.entity';'',
     ''import { '' @ Name @ ''Repository } from './'' @ name @ ''.repository';'',
     ''import { PaginatedResult } from 'src/common/dto/paginated-result.dto';'',
     [],
     ''@Injectable()'',
     ''export class '' @ Name @ ''RepositoryImpl extends '' @ Name @ ''Repository {'',
     ''  constructor('',
     ''    @InjectRepository('' @ Name @ ''Entity)'',
     ''    private readonly repo: Repository<'' @ Name @ ''Entity>,'',
     ''  ) {'',
     ''    super();'',
     ''  }'',
     [],
     ''  async create(data: Partial<'' @ Name @ ''Entity>) {'',
     ''    const entity = this.repo.create(data);'',
     ''    return this.repo.save(entity);'',
     ''  }'',
     [],
     ''  async findAll(pagination: any): Promise<PaginatedResult<'' @ Name @ ''Entity>> {'',
     ''    const limit = pagination.limit || 10;'',
     ''    const offset = pagination.offset || 0;'',
     ''    const sort = pagination.sort || 'createdAt';'',
     ''    const order = pagination.order || 'DESC';'',
     [],
     ''    const [data, total] = await this.repo.findAndCount({'',
     ''      take: limit,'',
     ''      skip: offset,'',
     ''      order: { [sort]: order },'',
     ''    });'',
     [],
     ''    return { data, total, limit, offset };'',
     ''  }'',
     [],
     ''  findById(id: string) {'',
     ''    return this.repo.findOne({ where: { id } });'',
     ''  }'',
     [],
     ''  async findWithFilter(filter: any): Promise<PaginatedResult<'' @ Name @ ''Entity>> {'',
     ''    const limit = filter.limit || 10;'',
     ''    const offset = filter.offset || 0;'',
     ''    const sort = filter.sort || 'createdAt';'',
     ''    const order = filter.order || 'DESC';'',
     ''    const search = filter.search;'',
     [],
     ''    const where: any = search ? { guestName: ILike(`%${search}%`) } : {};'',
     [],
     ''    const [data, total] = await this.repo.findAndCount({'',
     ''      where,'',
     ''      take: limit,'',
     ''      skip: offset,'',
     ''      order: { [sort]: order },'',
     ''    });'',
     [],
     ''    return { data, total, limit, offset };'',
     ''  }'',
     [],
     ''  async update(id: string, data: Partial<'' @ Name @ ''Entity>) {'',
     ''    await this.repo.update(id, data);'',
     ''    const entity = await this.findById(id);'',
     ''    if (!entity) {'',
     ''      throw new Error(`Entity ${id} not found`);'',
     ''    }'',
     ''    return entity;'',
     ''  }'',
     [],
     ''  async delete(id: string) {'',
     ''    await this.repo.softDelete(id);'',
     ''  }'',
     ''}'']"

definition mapper_ts :: "string \<Rightarrow> string \<Rightarrow> string" where
  "mapper_ts name Name = unlines
    [''import { '' @ Name @ ''Entity } from '../infrastructure/entities/'' @ name @ ''.entity';'',
     ''import { '' @ Name @ '' } from '../domain/'' @ name @ ''.domain';'',
     [],
     ''export class '' @ Name @ ''Mapper {'',
     ''  static toDomain(entity: '' @ Name @ ''Entity): '' @ Name @ '' {'',
     ''    return new '' @ Name @ ''({'',
     ''      id: entity.id,'',
     ''      createdAt: entity.createdAt,'',
     ''      updatedAt: entity.updatedAt,'',
     ''      deletedAt: entity.deletedAt,'',
     ''    });'',
     ''  }'',
     [],
     ''  static toEntity(domain: '' @ Name @ ''): Partial<'' @ Name @ ''Entity> {'',
     ''    const entity: Partial<'' @ Name @ ''Entity> = {};'',
     ''    if (domain.id) {'',
     ''      entity.id = domain.id;'',
     ''    }'',
     ''    return entity;'',
     ''  }'',
     ''}'']"

definition providers_ts :: "string \<Rightarrow> string \<Rightarrow> string" where
  "providers_ts name Name = unlines
    [''import { '' @ Name @ ''Repository } from '../repositories/'' @ name @ ''.repository';'',
     ''import { '' @ Name @ ''RepositoryImpl } from '../repositories/'' @ name @ ''.repository.impl';'',
     [],
     ''export const '' @ Name @ ''Providers = ['',
     ''  {'',
     ''    provide: '' @ Name @ ''Repository,'',
     ''    useClass: '' @ Name @ ''RepositoryImpl,'',
     ''  },'',
     ''];'']"

definition service_ts :: "string \<Rightarrow> string \<Rightarrow> string" where
  "service_ts name Name = unlines
    [''import { Injectable, NotFoundException } from '@nestjs/common';'',
     ''import type { '' @ Name @ ''Repository } from './infrastructure/repositories/'' @ name @ ''.repository';'',
     ''import { Create'' @ Name @ ''Dto } from './dto/create-'' @ name @ ''.dto';'',
     ''import { Update'' @ Name @ ''Dto } from './dto/update-'' @ name @ ''.dto';'',
     ''import { Filter'' @ Name @ ''Dto } from './dto/filter-'' @ name @ ''.dto';'',
     ''import { PaginationDto } from 'src/common/dto/pagination.dto';'',
     ''import { '' @ Name @ ''Entity } from './infrastructure/entities/'' @ name @ ''.entity';'',
     [],
     ''@Injectable()'',
     ''export class '' @ Name @ ''Service {'',
     ''  constructor('',
     ''    private readonly repo: '' @ Name @ ''Repository,'',
     ''  ) {}'',
     [],
     ''  async create(data: Create'' @ Name @ ''Dto) {'',
     ''    return this.repo.create(data as Partial<'' @ Name @ ''Entity>);'',
     ''  }'',
     [],
     ''  async findAll(pagination: PaginationDto) {'',
     ''    const result = await this.repo.findAll(pagination);'',
     ''    return {'',
     ''      data: result.data,'',
     ''      paginate: {'',
     ''        total: result.total,'',
     ''        limit: result.limit,'',
     ''        offset: result.offset,'',
     ''        pages: Math.ceil(result.total / result.limit),'',
     ''      },'',
     ''    };'',
     ''  }'',
     [],
     ''  async findWithFilter(filter: Filter'' @ Name @ ''Dto) {'',
     ''    const result = await this.repo.findWithFilter(filter);'',
     ''    return {'',
     ''      data: result.data,'',
     ''      paginate: {'',
     ''        total: result.total,'',
     ''        limit: result.limit,'',
     ''        offset: result.offset,'',
     ''        pages: Math.ceil(result.total / result.limit),'',
     ''      },'',
     ''    };'',
     ''  }'',
     [],
     ''  async findOne(id: string) {'',
     ''    const entity = await this.repo.findById(id);'',
     ''    if (!entity) {'',
     ''      throw new NotFoundException(`'' @ Name @ '' ${id} not found`);'',
     ''    }'',
     ''    return entity;'',
     ''  }'',
     [],
     ''  async update(id: string, data: Update'' @ Name @ ''Dto) {'',
     ''    await this.findOne(id);'',
     ''    return this.repo.update(id, data as Partial<'' @ Name @ ''Entity>);'',
     ''  }'',
     [],
     ''  async delete(id: string) {'',
     ''    await this.findOne(id);'',
     ''    return this.repo.delete(id);'',
     ''  }'',
     ''}'']"

definition controller_ts :: "string \<Rightarrow> string \<Rightarrow> string" where
  "controller_ts name Name = unlines
    [''import {'',
     ''  Controller,'',
     ''  Get,'',
     ''  Post,'',
     ''  Body,'',
     ''  Param,'',
     ''  Patch,'',
     ''  Delete,'',
     ''  Query,'',
     ''  HttpCode,'',
     ''  HttpStatus,'',
     ''  ValidationPipe,'',
     ''} from '@nestjs/common';'',
     ''import { ApiOkResponse } from '@nestjs/swagger';'',
     ''import { '' @ Name @ ''Service } from './'' @ name @ ''.service';'',
     ''import { Create'' @ Name @ ''Dto } from './dto/create-'' @ name @ ''.dto';'',
     ''import { Update'' @ Name @ ''Dto } from './dto/update-'' @ name @ ''.dto';'',
     ''import { Filter'' @ Name @ ''Dto } from './dto/filter-'' @ name @ ''.dto';'',
     ''import { PaginationDto } from 'src/common/dto/pagination.dto';'',
     [],
     ''@Controller('' @ apostrophe @ name @ apostrophe @ '')'',
     ''export class '' @ Name @ ''Controller {'',
     ''  constructor(private readonly service: '' @ Name @ ''Service) {}'',
     [],
     ''  @Post()'',
     ''  @HttpCode(HttpStatus.CREATED)'',
     ''  @ApiOkResponse({ description: 'Created successfully' })'',
     ''  create(@Body(ValidationPipe) body: Create'' @ Name @ ''Dto) {'',
     ''    return this.service.create(body);'',
     ''  }'',
     [],
     ''  @Get()'',
     ''  @ApiOkResponse({ description: 'Get all with pagination' })'',
     ''  findAll(@Query(ValidationPipe) pagination: PaginationDto) {'',
     ''    return this.service.findAll(pagination);'',
     ''  }'',
     [],
     ''  @Get('filter/search')'',
     ''  @ApiOkResponse({ description: 'Get with filter and search' })'',
     ''  findWithFilter(@Query(ValidationPipe) filter: Filter'' @ Name @ ''Dto) {'',
     ''    return this.service.findWithFilter(filter);'',
     ''  }'',
     [],
     ''  @Get(':id')'',
     ''  @ApiOkResponse({ description: 'Get by ID' })'',
     ''  findOne(@Param('id') id: string) {'',
     ''    return this.service.findOne(id);'',
     ''  }'',
     [],
     ''  @Patch(':id')'',
     ''  @ApiOkResponse({ description: 'Updated successfully' })'',
     ''  update('',
     ''    @Param('id') id: string,'',
     ''    @Body(ValidationPipe) body: Update'' @ Name @ ''Dto,'',
     ''  ) {'',
     ''    return this.service.update(id, body);'',
     ''  }'',
     [],
     ''  @Delete(':id')'',
     ''  @HttpCode(HttpStatus.NO_CONTENT)'',
     ''  @ApiOkResponse({ description: 'Deleted successfully' })'',
     ''  remove(@Param('id') id: string) {'',
     ''    return this.service.delete(id);'',
     ''  }'',
     ''}'']"

definition module_ts :: "string \<Rightarrow> string \<Rightarrow> string" where
  "module_ts name Name = unlines
    [''import { Module } from '@nestjs/common';'',
     ''import { TypeOrmModule } from '@nestjs/typeorm';'',
     ''import { '' @ Name @ ''Controller } from './'' @ name @ ''.controller';'',
     ''import { '' @ Name @ ''Service } from './'' @ name @ ''.service';'',
     ''import { '' @ Name @ ''Entity } from './infrastructure/entities/'' @ name @ ''.entity';'',
     ''import { '' @ Name @ ''Providers } from './infrastructure/providers/'' @ name @ ''.providers';'',
     [],
     ''@Module({'',
     ''  imports: [TypeOrmModule.forFeature(['' @ Name @ ''Entity])],'',
     ''  controllers: ['' @ Name @ ''Controller],'',
     ''  providers: ['' @ Name @ ''Service, ...'' @ Name @ ''Providers],'',
     ''  exports: ['' @ Name @ ''Service],'',
     ''})'',
     ''export class '' @ Name @ ''Module {}'']"

subsection \<open>The script\<close>

definition folders :: "string \<Rightarrow> string list" where
  "folders base =
     [base,
      base @ ''/domain'',
      base @ ''/dto'',
      base @ ''/infrastructure/entities'',
      base @ ''/infrastructure/repositories'',
      base @ ''/infrastructure/providers'',
      base @ ''/mappers'']"

text \<open>
  An object literal with computed keys assigns its properties from top to bottom: a key
  that is already there keeps its place and takes the new value, a new key goes to the
  end. \<^verbatim>\<open>for (const file in files)\<close> then visits the keys in that order (no key of
  \<^verbatim>\<open>files\<close> is an array index, every one ends in \<^verbatim>\<open>.ts\<close>).
\<close>

fun set_property :: "(string \<times> 'v) list \<Rightarrow> string \<Rightarrow> 'v \<Rightarrow> (string \<times> 'v) list" where
  "set_property [] k v = [(k, v)]"
| "set_property ((k', v') # ps) k v =
     (if k' = k then (k', v) # ps else (k', v') # set_property ps k v)"

definition object_literal :: "(string \<times> 'v) list \<Rightarrow> (string \<times> 'v) list" where
  "object_literal entries = foldl (\<lambda>obj (k, v). set_property obj k v) [] entries"

definition files :: "string \<Rightarrow> string \<Rightarrow> string \<Rightarrow> (string \<times> string) list" where
  "files name Name base =
     object_literal
       [(base @ ''/domain/'' @ name @ ''.domain.ts'', domain_ts name Name),
        (base @ ''/dto/create-'' @ name @ ''.dto.ts'', create_dto_ts name Name),
        (base @ ''/dto/update-'' @ name @ ''.dto.ts'', update_dto_ts name Name),
        (base @ ''/dto/filter-'' @ name @ ''.dto.ts'', filter_dto_ts name Name),
        (base @ ''/infrastructure/entities/'' @ name @ ''.entity.ts'', entity_ts name Name),
        (base @ ''/infrastructure/repositories/'' @ name @ ''.repository.ts'', repository_ts name Name),
        (base @ ''/infrastructure/repositories/'' @ name @ ''.repository.impl.ts'', repository_impl_ts name Name),
        (base @ ''/mappers/'' @ name @ ''.mapper.ts'', mapper_ts name Name),
        (base @ ''/infrastructure/providers/'' @ name @ ''.providers.ts'', providers_ts name Name),
        (base @ ''/'' @ name @ ''.service.ts'', service_ts name Name),
        (base @ ''/'' @ name @ ''.controller.ts'', controller_ts name Name),
        (base @ ''/'' @ name @ ''.module.ts'', module_ts name Name)]"

text \<open>
  The file system the script works on. A path that has been resolved is the list of its
  components from the root; the system maps each to what is there, a directory or a file
  with its content, and has a current directory, where relative paths start. Symbolic
  links, permissions, limits on the length of a name and a full disk are not modelled;
  paths are those of a POSIX system.
\<close>

datatype node = Dir | File string

record file_system =
  cwd :: "string list"
  nodes :: "string list \<rightharpoonup> node"

datatype fs_error = ENOENT | ENOTDIR | EEXIST | EISDIR

text \<open>
  Path resolution goes through the components one by one. Every component is looked up
  in a directory that must exist; an empty component and \<^verbatim>\<open>.\<close> stay there, \<^verbatim>\<open>..\<close>
  goes to the parent (the root is its own parent).
\<close>

fun walk :: "(string list \<rightharpoonup> node) \<Rightarrow> string list \<Rightarrow> string list \<Rightarrow> fs_error + string list" where
  "walk ns cur [] = Inr cur"
| "walk ns cur (c # cs) =
     (case ns cur of
        None \<Rightarrow> Inl ENOENT
      | Some (File content) \<Rightarrow> Inl ENOTDIR
      | Some Dir \<Rightarrow>
          if c = [] \<or> c = ''.'' then walk ns cur cs
          else if c = ''..'' then walk ns (butlast cur) cs
          else walk ns (cur @ [c]) cs)"

text \<open>
  \<^verbatim>\<open>fs.mkdirSync(dir, { recursive: true })\<close> creates every directory on the path that is not
  there yet, and accepts those that are; it fails where a file is in the way.
\<close>

fun mkdirp :: "(string list \<rightharpoonup> node) \<Rightarrow> string list \<Rightarrow> string list \<Rightarrow>
    fs_error + (string list \<rightharpoonup> node)" where
  "mkdirp ns cur [] = Inr ns"
| "mkdirp ns cur (c # cs) =
     (if c = [] \<or> c = ''.'' then mkdirp ns cur cs
      else if c = ''..'' then mkdirp ns (butlast cur) cs
      else
        case ns (cur @ [c]) of
          None \<Rightarrow> mkdirp (ns(cur @ [c] \<mapsto> Dir)) (cur @ [c]) cs
        | Some Dir \<Rightarrow> mkdirp ns (cur @ [c]) cs
        | Some (File content) \<Rightarrow> Inl (if cs = [] then EEXIST else ENOTDIR))"

text \<open>
  \<^verbatim>\<open>fs.writeFileSync(file, text)\<close> resolves the directory part of the path, which must
  exist, and creates the file there or replaces its content; it does not create
  directories, and fails when the path is a directory.
\<close>

definition write_file :: "(string list \<rightharpoonup> node) \<Rightarrow> string list \<Rightarrow> string list \<Rightarrow> string \<Rightarrow>
    fs_error + (string list \<rightharpoonup> node)" where
  "write_file ns cur cs content =
     (case walk ns cur (butlast cs) of
        Inl e \<Rightarrow> Inl e
      | Inr parent \<Rightarrow>
          (case ns parent of
             None \<Rightarrow> Inl ENOENT
           | Some (File other) \<Rightarrow> Inl ENOTDIR
           | Some Dir \<Rightarrow>
               let leaf = last cs
               in if leaf = [] \<or> leaf = ''.'' \<or> leaf = ''..'' then Inl EISDIR
                  else
                    case ns (parent @ [leaf]) of
                      Some Dir \<Rightarrow> Inl EISDIR
                    | _ \<Rightarrow> Inr (ns(parent @ [leaf] \<mapsto> File content))))"

definition start_dir :: "file_system \<Rightarrow> string \<Rightarrow> string list" where
  "start_dir fs path = (if hd path = CHR ''/'' then [] else cwd fs)"

datatype fs_call = mkdirSync string | writeFileSync string string

fun exec_call :: "fs_call \<Rightarrow> file_system \<Rightarrow> fs_error + file_system" where
  "exec_call (mkdirSync dir) fs =
     (if dir = [] then Inl ENOENT
      else
        case mkdirp (nodes fs) (start_dir fs dir) (split_slash dir) of
          Inl e \<Rightarrow> Inl e
        | Inr ns \<Rightarrow> Inr (fs\<lparr>nodes := ns\<rparr>))"
| "exec_call (writeFileSync file content) fs =
     (if file = [] then Inl ENOENT
      else
        case write_file (nodes fs) (start_dir fs file) (split_slash file) content of
          Inl e \<Rightarrow> Inl e
        | Inr ns \<Rightarrow> Inr (fs\<lparr>nodes := ns\<rparr>))"

text \<open>
  The script catches nothing: the first call that throws ends the run. \<open>run_calls\<close>
  makes the calls in order and gives the calls that returned, the exception of the one
  that did not (if any) and the file system as the run leaves it.
\<close>

fun run_calls :: "fs_call list \<Rightarrow> file_system \<Rightarrow> fs_call list \<times> fs_error option \<times> file_system" where
  "run_calls [] fs = ([], None, fs)"
| "run_calls (c # cs) fs =
     (case exec_call c fs of
        Inl e \<Rightarrow> ([], Some e, fs)
      | Inr fs' \<Rightarrow>
          (case run_calls cs fs' of (done, err, fs'') \<Rightarrow> (c # done, err, fs'')))"

text \<open>
  What a run of the script shows to the outside: the exit status, the lines the script
  prints with \<^verbatim>\<open>console.error\<close> and \<^verbatim>\<open>console.log\<close>, the \<^verbatim>\<open>fs\<close> calls that returned,
  in order, and the exception that ended the run, if one did. The runtime then writes
  its own report of the exception, which is not among the lines here, and exits with
  status 1.
\<close>

record run =
  exit_code :: int
  stderr :: "string list"
  stdout :: "string list"
  fs_calls :: "fs_call list"
  uncaught :: "fs_error option"

text \<open>The console lines. The three pictographs are written as their UTF-8 bytes.\<close>

definition cross_mark :: string where
  "cross_mark = [CHR 0xE2, CHR 0x9D, CHR 0x8C]"

definition check_mark_button :: string where
  "check_mark_button = [CHR 0xE2, CHR 0x9C, CHR 0x85]"

definition check_mark :: string where
  "check_mark = [CHR 0xE2, CHR 0x9C, CHR 0x93]"

definition quotation_mark :: string where
  "quotation_mark = [CHR 0x22]"

definition report :: "string \<Rightarrow> string list" where
  "report name =
     [check_mark_button @ '' Enterprise module '' @ quotation_mark @ name @ quotation_mark
        @ '' generated with:'',
      ''  '' @ check_mark @ '' Pagination (limit, offset, sort, order)'',
      ''  '' @ check_mark @ '' Filter & Search'',
      ''  '' @ check_mark @ '' Mapper (toDomain, toEntity with Id check)'',
      ''  '' @ check_mark @ '' DTOs with validation'',
      ''  '' @ check_mark @ '' Constructor for entities'',
      ''  '' @ check_mark @ '' @ApiOkResponse decorators'',
      ''  '' @ check_mark @ '' Full CRUD with Repository pattern'',
      ''  '' @ check_mark @ '' Centralized providers file'']"

text \<open>
  \<^verbatim>\<open>process.argv[2]\<close> is \<^verbatim>\<open>undefined\<close> (\<open>None\<close>) or a string; \<^verbatim>\<open>!name\<close> holds for
  \<^verbatim>\<open>undefined\<close> and for the empty string. \<^verbatim>\<open>process.exit(1)\<close> ends the run at once.
\<close>

definition missing_name :: run where
  "missing_name =
     \<lparr>exit_code = 1, stderr = [cross_mark @ '' Module name required''], stdout = [],
      fs_calls = [], uncaught = None\<rparr>"

definition generate_module :: "string option \<Rightarrow> file_system \<Rightarrow> run \<times> file_system" where
  "generate_module argv2 fs =
     (case argv2 of
        None \<Rightarrow> (missing_name, fs)
      | Some name \<Rightarrow>
          if name = [] then (missing_name, fs)
          else
            let Name = capitalize name;
                NAME = toUpperCase name;
                base = path_join [''src'', ''core'', name];
                calls =
                  map mkdirSync (folders base) @
                  map (\<lambda>(file, text). writeFileSync file text) (files name Name base)
            in case run_calls calls fs of
                 (done, Some e, fs') \<Rightarrow>
                   (\<lparr>exit_code = 1, stderr = [], stdout = [], fs_calls = done,
                     uncaught = Some e\<rparr>, fs')
               | (done, None, fs') \<Rightarrow>
                   (\<lparr>exit_code = 0, stderr = [], stdout = report name, fs_calls = done,
                     uncaught = None\<rparr>, fs'))"

text \<open>The files a sequence of calls writes.\<close>

fun writes :: "fs_call list \<Rightarrow> (string \<times> string) list" where
  "writes [] = []"
| "writes (mkdirSync dir # cs) = writes cs"
| "writes (writeFileSync file content # cs) = (file, content) # writes cs"

subsection \<open>Notions used in the statements\<close>

text \<open>
  The directories that \<open>mkdirp\<close> goes through from \<open>cur\<close> along components that are
  names; a relative path all of whose components are names; a string of ASCII
  characters (without NUL, which no command-line argument holds); and a file system in
  which nothing is in the way of the script: the current directory exists, no file is
  where one of the given directories or a directory above it has to be, and no directory
  is where one of the given files is written. A file that is already where one of the
  given files is written is not in the way: it is replaced.
\<close>

fun made_dirs :: "string list \<Rightarrow> string list \<Rightarrow> string list list" where
  "made_dirs cur [] = []"
| "made_dirs cur (c # cs) = (cur @ [c]) # made_dirs (cur @ [c]) cs"

definition names_only :: "string list \<Rightarrow> bool" where
  "names_only cs = (\<forall>c \<in> set cs. c \<noteq> [] \<and> c \<noteq> ''.'' \<and> c \<noteq> ''..'')"

definition plain_path :: "string \<Rightarrow> bool" where
  "plain_path p = (p \<noteq> [] \<and> hd p \<noteq> CHR ''/'' \<and> names_only (split_slash p))"

definition ascii :: "string \<Rightarrow> bool" where
  "ascii s = (\<forall>c \<in> set s. 0 < (of_char c :: nat) \<and> (of_char c :: nat) < 128)"

fun is_file :: "node option \<Rightarrow> bool" where
  "is_file (Some (File content)) = True"
| "is_file other = False"

definition nothing_in_the_way :: "file_system \<Rightarrow> string list \<Rightarrow> string list \<Rightarrow> bool" where
  "nothing_in_the_way fs dirs paths =
     (nodes fs (cwd fs) = Some Dir
      \<and> (\<forall>dir \<in> set dirs. \<forall>p \<in> set (made_dirs (cwd fs) (split_slash dir)).
            \<not> is_file (nodes fs p))
      \<and> (\<forall>path \<in> set paths. nodes fs (cwd fs @ split_slash path) \<noteq> Some Dir))"

text \<open>A map of nodes with directories added, and with files written.\<close>

definition with_dirs :: "(string list \<rightharpoonup> node) \<Rightarrow> string list list \<Rightarrow> (string list \<rightharpoonup> node)" where
  "with_dirs ns ps = (\<lambda>p. if p \<in> set ps then Some Dir else ns p)"

fun with_files :: "(string list \<rightharpoonup> node) \<Rightarrow> string list \<Rightarrow> (string \<times> string) list \<Rightarrow>
    (string list \<rightharpoonup> node)" where
  "with_files ns cur [] = ns"
| "with_files ns cur ((path, content) # ws) =
     with_files (ns(cur @ split_slash path \<mapsto> File content)) cur ws"

text \<open>Two file systems for the examples: a project directory that is empty, and one in
  which an earlier module file and a file of the project's own are present.\<close>

definition empty_project :: file_system where
  "empty_project = \<lparr>cwd = [''project''], nodes = [[] \<mapsto> Dir, [''project''] \<mapsto> Dir]\<rparr>"

definition used_project :: file_system where
  "used_project =
     \<lparr>cwd = [''project''],
      nodes = [[] \<mapsto> Dir, [''project''] \<mapsto> Dir,
               [''project'', ''README.md''] \<mapsto> File ''kept'',
               [''project'', ''src''] \<mapsto> Dir,
               [''project'', ''src'', ''core''] \<mapsto> Dir,
               [''project'', ''src'', ''core'', ''room''] \<mapsto> Dir,
               [''project'', ''src'', ''core'', ''room'', ''room.module.ts''] \<mapsto> File ''stale'']\<rparr>"

section \<open>The generated module\<close>

text \<open>
  The templates \<open>repository_impl_ts\<close> and \<open>service_ts\<close> hold the code of the generated
  repository adapter and service. Their methods are modelled below, each from the text
  of its template. A property that is absent (\<^verbatim>\<open>undefined\<close>) is \<open>None\<close>.
\<close>

subsection \<open>Numbers\<close>

text \<open>
  A number of the run time is a finite number, one of the two infinities or NaN. Finite
  numbers are reals, which is exact for the doubles of the run time as long as whole
  numbers stay below \<open>2^53\<close>; the negative zero is not told from zero. \<open>whole\<close> gives
  the natural number that a number is, if it is one.
\<close>

datatype number = Finite real | Infinity | MinusInfinity | NaN

fun whole :: "number \<Rightarrow> nat option" where
  "whole (Finite x) = (if 0 \<le> x \<and> x = real_of_int \<lfloor>x\<rfloor> then Some (nat \<lfloor>x\<rfloor>) else None)"
| "whole n = None"

subsection \<open>Exceptions and promises\<close>

datatype exn =
    Error string
  | NotFoundException string
  | EntityPropertyNotFoundError string
  | UpdateValuesMissingError
  | QueryFailedError string

text \<open>
  An \<^verbatim>\<open>async\<close> method is a function from the state of the persistence layer to a
  result, which is a thrown exception (\<open>Inl\<close>) or a value (\<open>Inr\<close>), and the state
  after it. \<open>await\<close> runs the continuation on a value and passes an exception on.
\<close>

type_synonym ('s, 'a) promise = "'s \<Rightarrow> (exn + 'a) \<times> 's"

definition resolved :: "'a \<Rightarrow> ('s, 'a) promise" where
  "resolved v s = (Inr v, s)"

definition throw :: "exn \<Rightarrow> ('s, 'a) promise" where
  "throw e s = (Inl e, s)"

definition await :: "('s, 'a) promise \<Rightarrow> ('a \<Rightarrow> ('s, 'b) promise) \<Rightarrow> ('s, 'b) promise" where
  "await m k s = (case m s of (Inl e, s') \<Rightarrow> (Inl e, s') | (Inr v, s') \<Rightarrow> k v s')"

subsection \<open>The pagination contract: \<^verbatim>\<open>src/common/dto/pagination.dto.ts\<close>\<close>

record PaginationDto =
  dto_limit :: "number option"
  dto_offset :: "number option"
  dto_sort :: "string option"
  dto_order :: "string option"

text \<open>The field initialisers of the class: what \<^verbatim>\<open>new PaginationDto()\<close> holds.\<close>

definition new_PaginationDto :: PaginationDto where
  "new_PaginationDto =
     \<lparr>dto_limit = Some (Finite 10), dto_offset = Some (Finite 0),
      dto_sort = Some ''createdAt'', dto_order = Some ''DESC''\<rparr>"

text \<open>
  The decorators of the class. \<^verbatim>\<open>@Type(() => Number)\<close> turns what the request holds
  into a number before validation, so that the property is a number of any kind.
  \<^verbatim>\<open>@IsOptional()\<close> lets an absent property pass and otherwise leaves it to the other
  decorators of the property; \<^verbatim>\<open>@Min(n)\<close> asks for \<^verbatim>\<open>value >= n\<close>, which holds of the
  finite numbers not below \<open>n\<close> and of the positive infinity, and of no other number;
  \<^verbatim>\<open>@IsString()\<close> holds of every string. No decorator asks for a whole number.
\<close>

definition IsOptional :: "'a option \<Rightarrow> ('a \<Rightarrow> bool) \<Rightarrow> bool" where
  "IsOptional v others = (case v of None \<Rightarrow> True | Some x \<Rightarrow> others x)"

fun Min_validator :: "real \<Rightarrow> number \<Rightarrow> bool" where
  "Min_validator n (Finite v) = (n \<le> v)"
| "Min_validator n Infinity = True"
| "Min_validator n MinusInfinity = False"
| "Min_validator n NaN = False"

definition IsString :: "string \<Rightarrow> bool" where
  "IsString v = True"

definition validate_PaginationDto :: "'a PaginationDto_scheme \<Rightarrow> bool" where
  "validate_PaginationDto p =
     (IsOptional (dto_limit p) (Min_validator 1) \<and>
      IsOptional (dto_offset p) (Min_validator 0) \<and>
      IsOptional (dto_sort p) IsString \<and>
      IsOptional (dto_order p) IsString)"

text \<open>The template \<open>filter_dto_ts\<close>: the filter request extends the pagination request.\<close>

record FilterDto = PaginationDto +
  dto_search :: "string option"

subsection \<open>The persistence entity and the persistence layer\<close>

text \<open>The template \<open>entity_ts\<close>: the four decorated properties.\<close>

record entity =
  ent_id :: string
  createdAt :: int
  updatedAt :: int
  deletedAt :: "int option"

definition entity_columns :: "string list" where
  "entity_columns = [''id'', ''createdAt'', ''updatedAt'', ''deletedAt'']"

text \<open>
  \<^verbatim>\<open>Partial<Entity>\<close> at run time is an object with whatever properties the caller gave it:
  a list of property names and values.
\<close>

datatype column_value = Text string | Timestamp int | Null

type_synonym partial_entity = "(string \<times> column_value) list"

text \<open>
  Modelled from the spec: \<^verbatim>\<open>PaginatedResult\<close>, declared in
  \<^verbatim>\<open>src/common/dto/paginated-result.dto.ts\<close>, which is not among the sources. The spec
  gives it as data, total, limit and offset; these are also the properties of the object
  the adapter returns.
\<close>

record PaginatedResult =
  res_data :: "entity list"
  res_total :: int
  res_limit :: number
  res_offset :: number

text \<open>
  The persistence layer is TypeORM's \<^verbatim>\<open>Repository<Entity>\<close>, an external collaborator.
  The adapter is modelled over any implementation of the four operations it calls. The
  find options are the ones the adapter builds: the conditions \<^verbatim>\<open>{}\<close>, \<^verbatim>\<open>{ id }\<close> and
  \<^verbatim>\<open>{ [column]: ILike(pattern) }\<close>, and a one-key \<^verbatim>\<open>order\<close>.
\<close>

datatype FindOptionsWhere = Where_none | Where_id string | Where_ILike string string

record FindManyOptions =
  fo_where :: FindOptionsWhere
  fo_take :: number
  fo_skip :: number
  fo_order :: "string \<times> string"

record 's Repository =
  orm_findAndCount :: "FindManyOptions \<Rightarrow> ('s, entity list \<times> int) promise"
  orm_findOne :: "FindOptionsWhere \<Rightarrow> ('s, entity option) promise"
  orm_update :: "string \<Rightarrow> partial_entity \<Rightarrow> ('s, unit) promise"
  orm_softDelete :: "string \<Rightarrow> ('s, unit) promise"

subsection \<open>The repository adapter: template \<open>repository_impl_ts\<close>\<close>

text \<open>
  \<^verbatim>\<open>x || d\<close> is \<open>d\<close> when \<open>x\<close> is falsy: absent, the number 0, NaN or the empty
  string.
\<close>

definition or_number :: "number option \<Rightarrow> number \<Rightarrow> number" where
  "or_number x d =
     (case x of None \<Rightarrow> d | Some n \<Rightarrow> if n = Finite 0 \<or> n = NaN then d else n)"

definition or_string :: "string option \<Rightarrow> string \<Rightarrow> string" where
  "or_string x d = (case x of None \<Rightarrow> d | Some s \<Rightarrow> if s = [] then d else s)"

definition RepositoryImpl_findAll ::
  "'s Repository \<Rightarrow> 'a PaginationDto_scheme \<Rightarrow> ('s, PaginatedResult) promise" where
  "RepositoryImpl_findAll repo pagination =
     (let limit = or_number (dto_limit pagination) (Finite 10);
          offset = or_number (dto_offset pagination) (Finite 0);
          sort = or_string (dto_sort pagination) ''createdAt'';
          order = or_string (dto_order pagination) ''DESC''
      in await
           (orm_findAndCount repo
              \<lparr>fo_where = Where_none, fo_take = limit, fo_skip = offset,
               fo_order = (sort, order)\<rparr>)
           (\<lambda>(data, total).
              resolved
                \<lparr>res_data = data, res_total = total, res_limit = limit,
                 res_offset = offset\<rparr>))"

definition RepositoryImpl_findById :: "'s Repository \<Rightarrow> string \<Rightarrow> ('s, entity option) promise" where
  "RepositoryImpl_findById repo i = orm_findOne repo (Where_id i)"

text \<open>
  \<^verbatim>\<open>const where: any = search ? { guestName: ILike(`%${search}%`) } : {}\<close>
\<close>

definition search_where :: "string option \<Rightarrow> FindOptionsWhere" where
  "search_where search =
     (case search of
        None \<Rightarrow> Where_none
      | Some s \<Rightarrow> if s = [] then Where_none else Where_ILike ''guestName'' (''%'' @ s @ ''%''))"

definition RepositoryImpl_findWithFilter ::
  "'s Repository \<Rightarrow> 'a FilterDto_scheme \<Rightarrow> ('s, PaginatedResult) promise" where
  "RepositoryImpl_findWithFilter repo fltr =
     (let limit = or_number (dto_limit fltr) (Finite 10);
          offset = or_number (dto_offset fltr) (Finite 0);
          sort = or_string (dto_sort fltr) ''createdAt'';
          order = or_string (dto_order fltr) ''DESC'';
          search = dto_search fltr;
          where = search_where search
      in await
           (orm_findAndCount repo
              \<lparr>fo_where = where, fo_take = limit, fo_skip = offset,
               fo_order = (sort, order)\<rparr>)
           (\<lambda>(data, total).
              resolved
                \<lparr>res_data = data, res_total = total, res_limit = limit,
                 res_offset = offset\<rparr>))"

definition RepositoryImpl_update ::
  "'s Repository \<Rightarrow> string \<Rightarrow> partial_entity \<Rightarrow> ('s, entity) promise" where
  "RepositoryImpl_update repo i data =
     await (orm_update repo i data)
       (\<lambda>_. await (RepositoryImpl_findById repo i)
          (\<lambda>entity.
             case entity of
               None \<Rightarrow> throw (Error (''Entity '' @ i @ '' not found''))
             | Some e \<Rightarrow> resolved e))"

definition RepositoryImpl_delete :: "'s Repository \<Rightarrow> string \<Rightarrow> ('s, unit) promise" where
  "RepositoryImpl_delete repo i = orm_softDelete repo i"

text \<open>
  The template \<open>repository_ts\<close>: the abstract class the service is written against, with
  the methods the service calls. The template \<open>providers_ts\<close> binds it to the adapter.
\<close>

record 's NameRepository =
  repo_findAll :: "PaginationDto \<Rightarrow> ('s, PaginatedResult) promise"
  repo_findById :: "string \<Rightarrow> ('s, entity option) promise"
  repo_findWithFilter :: "FilterDto \<Rightarrow> ('s, PaginatedResult) promise"
  repo_update :: "string \<Rightarrow> partial_entity \<Rightarrow> ('s, entity) promise"
  repo_delete :: "string \<Rightarrow> ('s, unit) promise"

definition RepositoryImpl :: "'s Repository \<Rightarrow> 's NameRepository" where
  "RepositoryImpl repo =
     \<lparr>repo_findAll = RepositoryImpl_findAll repo,
      repo_findById = RepositoryImpl_findById repo,
      repo_findWithFilter = RepositoryImpl_findWithFilter repo,
      repo_update = RepositoryImpl_update repo,
      repo_delete = RepositoryImpl_delete repo\<rparr>"

subsection \<open>The service: template \<open>service_ts\<close>\<close>

text \<open>
  \<^verbatim>\<open>Math.ceil(result.total / result.limit)\<close>: the quotient of the count, an integer, by a
  number, with the infinities and NaN that a zero divisor gives, zero for an infinite
  divisor and NaN for NaN.
\<close>

fun divide_number :: "int \<Rightarrow> number \<Rightarrow> number" where
  "divide_number a (Finite b) =
     (if b \<noteq> 0 then Finite (real_of_int a / b)
      else if a = 0 then NaN
      else if 0 < a then Infinity
      else MinusInfinity)"
| "divide_number a Infinity = Finite 0"
| "divide_number a MinusInfinity = Finite 0"
| "divide_number a NaN = NaN"

fun Math_ceil :: "number \<Rightarrow> number" where
  "Math_ceil (Finite x) = Finite (real_of_int \<lceil>x\<rceil>)"
| "Math_ceil n = n"

record paginate =
  pg_total :: int
  pg_limit :: number
  pg_offset :: number
  pg_pages :: number

record envelope =
  env_data :: "entity list"
  env_paginate :: paginate

definition Service_findAll :: "'s NameRepository \<Rightarrow> PaginationDto \<Rightarrow> ('s, envelope) promise" where
  "Service_findAll repo pagination =
     await (repo_findAll repo pagination)
       (\<lambda>result.
          resolved
            \<lparr>env_data = res_data result,
             env_paginate =
               \<lparr>pg_total = res_total result, pg_limit = res_limit result,
                pg_offset = res_offset result,
                pg_pages = Math_ceil (divide_number (res_total result) (res_limit result))\<rparr>\<rparr>)"

definition Service_findWithFilter :: "'s NameRepository \<Rightarrow> FilterDto \<Rightarrow> ('s, envelope) promise" where
  "Service_findWithFilter repo fltr =
     await (repo_findWithFilter repo fltr)
       (\<lambda>result.
          resolved
            \<lparr>env_data = res_data result,
             env_paginate =
               \<lparr>pg_total = res_total result, pg_limit = res_limit result,
                pg_offset = res_offset result,
                pg_pages = Math_ceil (divide_number (res_total result) (res_limit result))\<rparr>\<rparr>)"

text \<open>\<open>Name\<close> is the capitalised resource name the template interpolates into the message.\<close>

definition Service_findOne :: "string \<Rightarrow> 's NameRepository \<Rightarrow> string \<Rightarrow> ('s, entity) promise" where
  "Service_findOne Name repo i =
     await (repo_findById repo i)
       (\<lambda>entity.
          case entity of
            None \<Rightarrow> throw (NotFoundException (Name @ '' '' @ i @ '' not found''))
          | Some e \<Rightarrow> resolved e)"

definition Service_update ::
  "string \<Rightarrow> 's NameRepository \<Rightarrow> string \<Rightarrow> partial_entity \<Rightarrow> ('s, entity) promise" where
  "Service_update Name repo i data =
     await (Service_findOne Name repo i) (\<lambda>_. repo_update repo i data)"

definition Service_delete :: "string \<Rightarrow> 's NameRepository \<Rightarrow> string \<Rightarrow> ('s, unit) promise" where
  "Service_delete Name repo i =
     await (Service_findOne Name repo i) (\<lambda>_. repo_delete repo i)"

subsection \<open>An in-memory persistence layer\<close>

text \<open>
  A table of entities that stands in for TypeORM over PostgreSQL where a concrete
  persistence layer is needed. It follows the contract the adapter relies on: the find
  operations leave out soft-deleted rows; \<^verbatim>\<open>findAndCount\<close> filters, orders, skips and
  takes, and counts the matching rows before skipping; a condition or an order on a
  property that is not a column of the entity is refused, and so are \<^verbatim>\<open>ILike\<close> on a
  column that holds no text (the entity has none: an identifier and three timestamps), a
  \<^verbatim>\<open>take\<close> or \<^verbatim>\<open>skip\<close> that is not a whole number from 0 on, an update without values
  and a value of the wrong type. Rows with equal keys keep their order in the table. \<open>tbl_now\<close> is the clock of the
  database.
\<close>

record table =
  tbl_rows :: "entity list"
  tbl_now :: int

definition live :: "entity list \<Rightarrow> entity list" where
  "live es = filter (\<lambda>e. deletedAt e = None) es"

fun matches :: "FindOptionsWhere \<Rightarrow> entity \<Rightarrow> bool" where
  "matches Where_none e = True"
| "matches (Where_id i) e = (ent_id e = i)"
| "matches (Where_ILike c p) e = False"

fun string_le :: "string \<Rightarrow> string \<Rightarrow> bool" where
  "string_le [] t = True"
| "string_le (a # s) [] = False"
| "string_le (a # s) (b # t) =
     ((of_char a :: nat) < of_char b \<or> (a = b \<and> string_le s t))"

definition column_le :: "string \<Rightarrow> entity \<Rightarrow> entity \<Rightarrow> bool" where
  "column_le c a b =
     (if c = ''id'' then string_le (ent_id a) (ent_id b)
      else if c = ''createdAt'' then createdAt a \<le> createdAt b
      else if c = ''updatedAt'' then updatedAt a \<le> updatedAt b
      else True)"

fun insert_by :: "('a \<Rightarrow> 'a \<Rightarrow> bool) \<Rightarrow> 'a \<Rightarrow> 'a list \<Rightarrow> 'a list" where
  "insert_by le x [] = [x]"
| "insert_by le x (y # ys) = (if le x y then x # y # ys else y # insert_by le x ys)"

definition sort_by :: "('a \<Rightarrow> 'a \<Rightarrow> bool) \<Rightarrow> 'a list \<Rightarrow> 'a list" where
  "sort_by le xs = foldr (insert_by le) xs []"

definition order_by :: "string \<times> string \<Rightarrow> entity list \<Rightarrow> entity list" where
  "order_by ord es =
     (if snd ord = ''DESC'' \<or> snd ord = ''desc''
      then sort_by (\<lambda>a b. column_le (fst ord) b a) es
      else sort_by (column_le (fst ord)) es)"

definition table_findAndCount :: "FindManyOptions \<Rightarrow> (table, entity list \<times> int) promise" where
  "table_findAndCount options t =
     (case fo_where options of
        Where_ILike c p \<Rightarrow>
          if c \<in> set entity_columns
          then throw (QueryFailedError (''operator does not exist: '' @ c @ '' ~~* unknown'')) t
          else throw (EntityPropertyNotFoundError c) t
      | w \<Rightarrow>
          if fst (fo_order options) \<notin> set entity_columns
          then throw (EntityPropertyNotFoundError (fst (fo_order options))) t
          else
            case whole (fo_take options) of
              None \<Rightarrow> throw (QueryFailedError ''LIMIT must be a whole number from 0 on'') t
            | Some n \<Rightarrow>
                (case whole (fo_skip options) of
                   None \<Rightarrow> throw (QueryFailedError ''OFFSET must be a whole number from 0 on'') t
                 | Some k \<Rightarrow>
                     let matching = filter (matches w) (live (tbl_rows t))
                     in resolved
                          (take n (drop k (order_by (fo_order options) matching)),
                           int (length matching)) t))"

definition table_findOne :: "FindOptionsWhere \<Rightarrow> (table, entity option) promise" where
  "table_findOne w t =
     (case w of
        Where_ILike c p \<Rightarrow>
          if c \<in> set entity_columns
          then throw (QueryFailedError (''operator does not exist: '' @ c @ '' ~~* unknown'')) t
          else throw (EntityPropertyNotFoundError c) t
      | _ \<Rightarrow> resolved (find (matches w) (live (tbl_rows t))) t)"

fun well_typed :: "string \<times> column_value \<Rightarrow> bool" where
  "well_typed (c, Text v) = (c = ''id'')"
| "well_typed (c, Timestamp v) = (c = ''createdAt'' \<or> c = ''updatedAt'' \<or> c = ''deletedAt'')"
| "well_typed (c, Null) = (c = ''deletedAt'')"

fun set_column :: "string \<times> column_value \<Rightarrow> entity \<Rightarrow> entity" where
  "set_column (c, Text v) e = e\<lparr>ent_id := v\<rparr>"
| "set_column (c, Timestamp v) e =
     (if c = ''createdAt'' then e\<lparr>createdAt := v\<rparr>
      else if c = ''updatedAt'' then e\<lparr>updatedAt := v\<rparr>
      else e\<lparr>deletedAt := Some v\<rparr>)"
| "set_column (c, Null) e = e\<lparr>deletedAt := None\<rparr>"

definition table_update :: "string \<Rightarrow> partial_entity \<Rightarrow> (table, unit) promise" where
  "table_update i data t =
     (if data = [] then throw UpdateValuesMissingError t
      else
        case find (\<lambda>(c, v). c \<notin> set entity_columns) data of
          Some (c, v) \<Rightarrow> throw (EntityPropertyNotFoundError c) t
        | None \<Rightarrow>
            if \<not> list_all well_typed data then throw (QueryFailedError ''invalid input syntax'') t
            else
              resolved ()
                (t\<lparr>tbl_rows :=
                     map (\<lambda>e. if ent_id e = i
                               then fold set_column data (e\<lparr>updatedAt := tbl_now t\<rparr>)
                               else e)
                       (tbl_rows t)\<rparr>))"

definition table_softDelete :: "string \<Rightarrow> (table, unit) promise" where
  "table_softDelete i t =
     resolved ()
       (t\<lparr>tbl_rows :=
            map (\<lambda>e. if ent_id e = i
                      then e\<lparr>deletedAt := Some (tbl_now t), updatedAt := tbl_now t\<rparr>
                      else e)
              (tbl_rows t)\<rparr>)"

definition table_orm :: "table Repository" where
  "table_orm =
     \<lparr>orm_findAndCount = table_findAndCount, orm_findOne = table_findOne,
      orm_update = table_update, orm_softDelete = table_softDelete\<rparr>"

section \<open>Properties of the generator\<close>

subsection \<open>The object literal has twelve entries\<close>

lemma set_property_fresh:
  "k \<notin> fst ` set ps \<Longrightarrow> set_property ps k v = ps @ [(k, v)]"
  by (induction ps) auto

lemma foldl_set_property_distinct:
  "distinct (map fst (acc @ es)) \<Longrightarrow>
   foldl (\<lambda>obj (k, v). set_property obj k v) acc es = acc @ es"
proof (induction es arbitrary: acc)
  case Nil
  then show ?case by simp
next
  case (Cons e es)
  obtain k v where e: "e = (k, v)" by (cases e)
  from Cons.prems have fresh: "k \<notin> fst ` set acc" by (auto simp: e)
  from Cons.prems have "distinct (map fst ((acc @ [(k, v)]) @ es))" by (simp add: e)
  then have "foldl (\<lambda>obj (k, v). set_property obj k v) (acc @ [(k, v)]) es
               = (acc @ [(k, v)]) @ es"
    by (rule Cons.IH)
  then show ?case by (simp add: e set_property_fresh [OF fresh])
qed

lemma object_literal_distinct:
  "distinct (map fst es) \<Longrightarrow> object_literal es = es"
  using foldl_set_property_distinct [of "[]" es] by (simp add: object_literal_def)

text \<open>
  The twelve keys differ for every name: nine by the directory or the ending, the three
  files of the module root by their length.
\<close>

lemma keys_distinct:
  "distinct
     [base @ ''/domain/'' @ name @ ''.domain.ts'',
      base @ ''/dto/create-'' @ name @ ''.dto.ts'',
      base @ ''/dto/update-'' @ name @ ''.dto.ts'',
      base @ ''/dto/filter-'' @ name @ ''.dto.ts'',
      base @ ''/infrastructure/entities/'' @ name @ ''.entity.ts'',
      base @ ''/infrastructure/repositories/'' @ name @ ''.repository.ts'',
      base @ ''/infrastructure/repositories/'' @ name @ ''.repository.impl.ts'',
      base @ ''/mappers/'' @ name @ ''.mapper.ts'',
      base @ ''/infrastructure/providers/'' @ name @ ''.providers.ts'',
      base @ ''/'' @ name @ ''.service.ts'',
      base @ ''/'' @ name @ ''.controller.ts'',
      base @ ''/'' @ name @ ''.module.ts'']"
proof -
  let ?A = "[''/domain/'' @ name @ ''.domain.ts'',
      ''/dto/create-'' @ name @ ''.dto.ts'',
      ''/dto/update-'' @ name @ ''.dto.ts'',
      ''/dto/filter-'' @ name @ ''.dto.ts'',
      ''/infrastructure/entities/'' @ name @ ''.entity.ts'',
      ''/infrastructure/repositories/'' @ name @ ''.repository.ts'',
      ''/infrastructure/repositories/'' @ name @ ''.repository.impl.ts'',
      ''/mappers/'' @ name @ ''.mapper.ts'',
      ''/infrastructure/providers/'' @ name @ ''.providers.ts'']"
  let ?B = "[''/'' @ name @ ''.service.ts'',
      ''/'' @ name @ ''.controller.ts'',
      ''/'' @ name @ ''.module.ts'']"
  have A: "distinct ?A" by simp
  have B: "distinct ?B" by simp
  have "\<forall>a \<in> set ?A. \<forall>b \<in> set ?B. length a \<noteq> length b" by simp
  then have "set ?A \<inter> set ?B = {}" by blast
  with A B have "distinct (?A @ ?B)" by (simp only: distinct_append)
  then have "distinct (map ((@) base) (?A @ ?B))"
    by (simp only: distinct_map) (simp add: inj_on_def)
  then show ?thesis by simp
qed

lemma files_entries:
  "files name Name base =
     [(base @ ''/domain/'' @ name @ ''.domain.ts'', domain_ts name Name),
      (base @ ''/dto/create-'' @ name @ ''.dto.ts'', create_dto_ts name Name),
      (base @ ''/dto/update-'' @ name @ ''.dto.ts'', update_dto_ts name Name),
      (base @ ''/dto/filter-'' @ name @ ''.dto.ts'', filter_dto_ts name Name),
      (base @ ''/infrastructure/entities/'' @ name @ ''.entity.ts'', entity_ts name Name),
      (base @ ''/infrastructure/repositories/'' @ name @ ''.repository.ts'', repository_ts name Name),
      (base @ ''/infrastructure/repositories/'' @ name @ ''.repository.impl.ts'', repository_impl_ts name Name),
      (base @ ''/mappers/'' @ name @ ''.mapper.ts'', mapper_ts name Name),
      (base @ ''/infrastructure/providers/'' @ name @ ''.providers.ts'', providers_ts name Name),
      (base @ ''/'' @ name @ ''.service.ts'', service_ts name Name),
      (base @ ''/'' @ name @ ''.controller.ts'', controller_ts name Name),
      (base @ ''/'' @ name @ ''.module.ts'', module_ts name Name)]"
  unfolding files_def
  by (rule object_literal_distinct) (use keys_distinct [of base name] in simp)

subsection \<open>Splitting paths\<close>

lemma split_slash_not_Nil: "split_slash s \<noteq> []"
  by (induction s) (auto split: list.splits)

lemma split_slash_plain: "CHR ''/'' \<notin> set s \<Longrightarrow> split_slash s = [s]"
  by (induction s) auto

lemma split_slash_append: "split_slash (xs @ CHR ''/'' # ys) = split_slash xs @ split_slash ys"
proof (induction xs)
  case Nil
  then show ?case by simp
next
  case (Cons c xs)
  obtain seg segs where s: "split_slash xs = seg # segs"
    using split_slash_not_Nil [of xs] by (cases "split_slash xs") auto
  show ?case by (simp add: Cons s)
qed

lemma join_split_slash: "join_slash (split_slash s) = s"
proof (induction s)
  case Nil
  then show ?case by simp
next
  case (Cons c cs)
  obtain seg segs where s: "split_slash cs = seg # segs"
    using split_slash_not_Nil [of cs] by (cases "split_slash cs") auto
  from Cons s have j: "join_slash (seg # segs) = cs" by simp
  show ?case
  proof (cases "c = CHR ''/''")
    case True
    then show ?thesis using j by (simp add: s)
  next
    case False
    then show ?thesis using j by (cases segs) (simp_all add: s)
  qed
qed

lemma split_slash_inject: "split_slash a = split_slash b \<Longrightarrow> a = b"
  by (metis join_split_slash)

subsection \<open>The module root of a name without a slash\<close>

lemma path_normalize_relative:
  "p \<noteq> [] \<Longrightarrow> hd p \<noteq> CHR ''/'' \<Longrightarrow> last p \<noteq> CHR ''/'' \<Longrightarrow> normalizeString p True \<noteq> [] \<Longrightarrow>
   path_normalize p = normalizeString p True"
  by (simp add: path_normalize_def Let_def)

lemma path_join_plain:
  assumes "name \<noteq> []" and "CHR ''/'' \<notin> set name"
  shows "path_join [''src'', ''core'', name] =
           (if name = ''.'' then ''src/core'' else if name = ''..'' then ''src''
            else ''src/core/'' @ name)"
proof -
  define joined where "joined = ''src/core/'' @ name"
  define result where "result = (if name = ''.'' then ''src/core'' else if name = ''..'' then ''src''
            else ''src/core/'' @ name)"
  have l: "last joined \<noteq> CHR ''/''"
    unfolding joined_def using assms last_in_set [of name] by (metis last_appendR)
  have h: "hd joined \<noteq> CHR ''/''" by (simp add: joined_def)
  have ne: "joined \<noteq> []" by (simp add: joined_def)
  have "joined = ''src'' @ CHR ''/'' # ''core'' @ CHR ''/'' # name" by (simp add: joined_def)
  then have sp: "split_slash joined = [''src'', ''core'', name]"
    using assms by (simp only: split_slash_append) (simp add: split_slash_plain)
  have n: "normalizeString joined True = result"
    unfolding normalizeString_def sp result_def using assms by (simp add: normalize_step_def)
  have r: "result \<noteq> []" by (simp add: result_def)
  have pn: "path_normalize joined = result"
    using path_normalize_relative [OF ne h l] n r by simp
  have j: "join_slash (filter (\<lambda>arg. arg \<noteq> []) [''src'', ''core'', name]) = joined"
    using assms by (simp add: joined_def)
  show ?thesis
    unfolding path_join_def j Let_def using ne pn by (simp add: result_def)
qed

subsection \<open>Calls along paths of names\<close>

lemma mkdirp_names:
  assumes "names_only cs"
    and "\<forall>p \<in> set (made_dirs cur cs). \<forall>content. ns p \<noteq> Some (File content)"
  shows "mkdirp ns cur cs = Inr (with_dirs ns (made_dirs cur cs))"
  using assms
proof (induction cs arbitrary: ns cur)
  case Nil
  then show ?case by (simp add: with_dirs_def)
next
  case (Cons c cs)
  from Cons.prems have c: "c \<noteq> []" "c \<noteq> ''.''" "c \<noteq> ''..''" and rest: "names_only cs"
    by (simp_all add: names_only_def)
  show ?case
  proof (cases "ns (cur @ [c])")
    case None
    have "\<forall>p \<in> set (made_dirs (cur @ [c]) cs). \<forall>content.
            (ns(cur @ [c] \<mapsto> Dir)) p \<noteq> Some (File content)"
      using Cons.prems(2) by simp
    from Cons.IH [OF rest this]
    have "mkdirp (ns(cur @ [c] \<mapsto> Dir)) (cur @ [c]) cs
            = Inr (with_dirs (ns(cur @ [c] \<mapsto> Dir)) (made_dirs (cur @ [c]) cs))" .
    moreover have "with_dirs (ns(cur @ [c] \<mapsto> Dir)) (made_dirs (cur @ [c]) cs)
            = with_dirs ns (made_dirs cur (c # cs))"
      by (rule ext) (simp add: with_dirs_def)
    ultimately show ?thesis using c None by simp
  next
    case (Some n)
    with Cons.prems(2) have d: "ns (cur @ [c]) = Some Dir"
      by (cases n) auto
    have "\<forall>p \<in> set (made_dirs (cur @ [c]) cs). \<forall>content. ns p \<noteq> Some (File content)"
      using Cons.prems(2) by simp
    from Cons.IH [OF rest this]
    have "mkdirp ns (cur @ [c]) cs = Inr (with_dirs ns (made_dirs (cur @ [c]) cs))" .
    moreover have "with_dirs ns (made_dirs (cur @ [c]) cs) = with_dirs ns (made_dirs cur (c # cs))"
      by (rule ext) (simp add: with_dirs_def d)
    ultimately show ?thesis using c d by simp
  qed
qed

lemma walk_names:
  assumes "names_only cs"
    and "\<forall>p \<in> set (butlast (cur # made_dirs cur cs)). ns p = Some Dir"
  shows "walk ns cur cs = Inr (cur @ cs)"
  using assms
proof (induction cs arbitrary: cur)
  case Nil
  then show ?case by simp
next
  case (Cons c cs)
  from Cons.prems have c: "c \<noteq> []" "c \<noteq> ''.''" "c \<noteq> ''..''" and rest: "names_only cs"
    by (simp_all add: names_only_def)
  from Cons.prems(2) have d: "ns cur = Some Dir" by simp
  from Cons.prems(2) have "\<forall>p \<in> set (butlast ((cur @ [c]) # made_dirs (cur @ [c]) cs)). ns p = Some Dir"
    by simp
  from Cons.IH [OF rest this] show ?case using c d by simp
qed

lemma last_made_dirs: "last (cur # made_dirs cur cs) = cur @ cs"
  by (induction cs arbitrary: cur) simp_all

lemma made_dirs_append:
  "made_dirs cur (cs @ ds) = made_dirs cur cs @ made_dirs (cur @ cs) ds"
  by (induction cs arbitrary: cur) simp_all

lemma write_file_names:
  assumes "names_only cs" and "cs \<noteq> []"
    and dirs: "\<forall>p \<in> set (cur # made_dirs cur (butlast cs)). ns p = Some Dir"
    and "ns (cur @ cs) \<noteq> Some Dir"
  shows "write_file ns cur cs content = Inr (ns(cur @ cs \<mapsto> File content))"
proof -
  from assms(1) have b: "names_only (butlast cs)"
    by (auto simp: names_only_def dest: in_set_butlastD)
  from dirs have "\<forall>p \<in> set (butlast (cur # made_dirs cur (butlast cs))). ns p = Some Dir"
    by (auto dest: in_set_butlastD)
  from walk_names [OF b this] have w: "walk ns cur (butlast cs) = Inr (cur @ butlast cs)" .
  have "cur @ butlast cs \<in> set (cur # made_dirs cur (butlast cs))"
    using last_made_dirs [of cur "butlast cs"] last_in_set [of "cur # made_dirs cur (butlast cs)"]
    by simp
  with dirs have p: "ns (cur @ butlast cs) = Some Dir" by blast
  from assms(1,2) have l: "last cs \<noteq> []" "last cs \<noteq> ''.''" "last cs \<noteq> ''..''"
    by (auto simp: names_only_def)
  have full: "(cur @ butlast cs) @ [last cs] = cur @ cs"
    using assms(2) by simp
  show ?thesis
    unfolding write_file_def w using p l assms(4) full
    by (auto simp: Let_def split: option.splits node.splits)
qed

subsection \<open>Runs of calls\<close>

lemma run_calls_mkdirs:
  assumes "\<forall>d \<in> set ds. plain_path d"
    and "\<forall>d \<in> set ds. \<forall>p \<in> set (made_dirs (cwd fs) (split_slash d)). \<forall>content.
           nodes fs p \<noteq> Some (File content)"
  shows "run_calls (map mkdirSync ds @ rest) fs =
           (case run_calls rest
                   (fs\<lparr>nodes := with_dirs (nodes fs)
                      (concat (map (\<lambda>d. made_dirs (cwd fs) (split_slash d)) ds))\<rparr>) of
              (done, err, fs') \<Rightarrow> (map mkdirSync ds @ done, err, fs'))"
  using assms
proof (induction ds arbitrary: fs)
  case Nil
  have "fs\<lparr>nodes := with_dirs (nodes fs) []\<rparr> = fs"
    by (simp add: with_dirs_def)
  then show ?case by simp
next
  case (Cons d ds)
  let ?made = "made_dirs (cwd fs) (split_slash d)"
  let ?fs = "fs\<lparr>nodes := with_dirs (nodes fs) ?made\<rparr>"
  from Cons.prems(1) have d: "d \<noteq> []" "hd d \<noteq> CHR ''/''" "names_only (split_slash d)"
    by (simp_all add: plain_path_def)
  from Cons.prems(2) have "\<forall>p \<in> set ?made. \<forall>content. nodes fs p \<noteq> Some (File content)"
    by simp
  from mkdirp_names [OF d(3) this]
  have step: "exec_call (mkdirSync d) fs = Inr ?fs"
    using d by (simp add: start_dir_def)
  have 1: "\<forall>d \<in> set ds. plain_path d" using Cons.prems(1) by simp
  have 2: "\<forall>d \<in> set ds. \<forall>p \<in> set (made_dirs (cwd ?fs) (split_slash d)). \<forall>content.
           nodes ?fs p \<noteq> Some (File content)"
    using Cons.prems(2) by (simp add: with_dirs_def)
  have merge: "?fs\<lparr>nodes := with_dirs (nodes ?fs)
                      (concat (map (\<lambda>d. made_dirs (cwd ?fs) (split_slash d)) ds))\<rparr>
        = fs\<lparr>nodes := with_dirs (nodes fs)
                      (concat (map (\<lambda>d. made_dirs (cwd fs) (split_slash d)) (d # ds)))\<rparr>"
    by (simp add: with_dirs_def fun_eq_iff)
  show ?case
    using Cons.IH [OF 1 2] step merge by (simp split: prod.splits)
qed

lemma run_calls_writes:
  assumes "\<forall>(path, content) \<in> set ws. plain_path path"
    and "\<forall>(path, content) \<in> set ws.
           \<forall>p \<in> set (cwd fs # made_dirs (cwd fs) (butlast (split_slash path))). nodes fs p = Some Dir"
    and "\<forall>(path, content) \<in> set ws. nodes fs (cwd fs @ split_slash path) \<noteq> Some Dir"
  shows "run_calls (map (\<lambda>(file, text). writeFileSync file text) ws) fs =
           (map (\<lambda>(file, text). writeFileSync file text) ws, None,
            fs\<lparr>nodes := with_files (nodes fs) (cwd fs) ws\<rparr>)"
  using assms
proof (induction ws arbitrary: fs)
  case Nil
  then show ?case by simp
next
  case (Cons w ws)
  obtain path content where w: "w = (path, content)" by (cases w)
  let ?target = "cwd fs @ split_slash path"
  let ?fs = "fs\<lparr>nodes := (nodes fs)(?target \<mapsto> File content)\<rparr>"
  from Cons.prems(1) have p: "path \<noteq> []" "hd path \<noteq> CHR ''/''" "names_only (split_slash path)"
    by (simp_all add: w plain_path_def)
  from Cons.prems(2) have dirs: "\<forall>p \<in> set (cwd fs # made_dirs (cwd fs) (butlast (split_slash path))).
      nodes fs p = Some Dir"
    by (simp add: w)
  from Cons.prems(3) have t: "nodes fs ?target \<noteq> Some Dir" by (simp add: w)
  from write_file_names [OF p(3) split_slash_not_Nil dirs t]
  have step: "exec_call (writeFileSync path content) fs = Inr ?fs"
    using p by (simp add: start_dir_def)
  have 1: "\<forall>(path, content) \<in> set ws. plain_path path" using Cons.prems(1) by simp
  have 2: "\<forall>(path, content) \<in> set ws.
           \<forall>p \<in> set (cwd ?fs # made_dirs (cwd ?fs) (butlast (split_slash path))). nodes ?fs p = Some Dir"
    using Cons.prems(2) t by (auto simp: w)
  have 3: "\<forall>(path, content) \<in> set ws. nodes ?fs (cwd ?fs @ split_slash path) \<noteq> Some Dir"
    using Cons.prems(3) by (auto simp: w split: if_splits)
  have ih: "run_calls (map (\<lambda>(file, text). writeFileSync file text) ws) ?fs =
           (map (\<lambda>(file, text). writeFileSync file text) ws, None,
            ?fs\<lparr>nodes := with_files (nodes ?fs) (cwd ?fs) ws\<rparr>)"
    by (rule Cons.IH [OF 1 2 3])
  have eq: "?fs\<lparr>nodes := with_files (nodes ?fs) (cwd ?fs) ws\<rparr>
              = fs\<lparr>nodes := with_files (nodes fs) (cwd fs) (w # ws)\<rparr>"
    by (simp add: w)
  show ?case
    unfolding eq [symmetric] by (simp add: w step ih del: exec_call.simps fun_upd_apply)
qed

lemma with_files_other:
  "q \<notin> (\<lambda>(path, content). cur @ split_slash path) ` set ws \<Longrightarrow> with_files ns cur ws q = ns q"
  by (induction ws arbitrary: ns) auto

lemma with_files_target:
  assumes "distinct (map fst ws)" and "(path, content) \<in> set ws"
  shows "with_files ns cur ws (cur @ split_slash path) = Some (File content)"
  using assms
proof (induction ws arbitrary: ns)
  case Nil
  then show ?case by simp
next
  case (Cons w ws)
  obtain path' content' where w: "w = (path', content')" by (cases w)
  show ?case
  proof (cases "(path, content) \<in> set ws")
    case True
    with Cons show ?thesis by (simp add: w)
  next
    case False
    with Cons.prems have same: "path' = path" "content' = content" by (auto simp: w)
    from Cons.prems(1) have "path \<notin> fst ` set ws" by (simp add: w same)
    then have "cur @ split_slash path \<notin> (\<lambda>(path, content). cur @ split_slash path) ` set ws"
      by (force dest: split_slash_inject)
    from with_files_other [OF this] show ?thesis by (simp add: w same)
  qed
qed

subsection \<open>A run for a name without a slash\<close>

lemma writes_map_calls:
  "writes (map mkdirSync ds @ map (\<lambda>(file, text). writeFileSync file text) ws) = ws"
proof -
  have w: "writes (map (\<lambda>(file, text). writeFileSync file text) ws) = ws"
    by (induction ws) auto
  show ?thesis by (induction ds) (simp_all add: w)
qed

lemma length_made_dirs:
  "p \<in> set (made_dirs cur cs) \<Longrightarrow> length cur < length p \<and> length p \<le> length cur + length cs"
  by (induction cs arbitrary: cur) fastforce+

lemma base_of_plain_name:
  assumes "name \<noteq> []" and "CHR ''/'' \<notin> set name"
  shows "path_join [''src'', ''core'', name] \<noteq> []"
    and "hd (path_join [''src'', ''core'', name]) \<noteq> CHR ''/''"
    and "names_only (split_slash (path_join [''src'', ''core'', name]))"
proof -
  have sp: "split_slash (''src/core/'' @ name) = [''src'', ''core'', name]"
  proof -
    have "''src/core/'' @ name = ''src'' @ CHR ''/'' # ''core'' @ CHR ''/'' # name" by simp
    then show ?thesis
      using assms by (simp only: split_slash_append) (simp add: split_slash_plain)
  qed
  note pj = path_join_plain [OF assms]
  show "path_join [''src'', ''core'', name] \<noteq> []"
    unfolding pj by simp
  show "hd (path_join [''src'', ''core'', name]) \<noteq> CHR ''/''"
    unfolding pj by simp
  show "names_only (split_slash (path_join [''src'', ''core'', name]))"
  proof (cases "name = ''.'' \<or> name = ''..''")
    case True
    then show ?thesis unfolding pj by (auto simp: names_only_def)
  next
    case False
    then have "path_join [''src'', ''core'', name] = ''src/core/'' @ name"
      unfolding pj by simp
    then show ?thesis
      using False assms(1) by (simp only: sp) (simp add: names_only_def)
  qed
qed

lemma folders_split:
  "map split_slash (folders base) =
     [split_slash base,
      split_slash base @ [''domain''],
      split_slash base @ [''dto''],
      split_slash base @ [''infrastructure'', ''entities''],
      split_slash base @ [''infrastructure'', ''repositories''],
      split_slash base @ [''infrastructure'', ''providers''],
      split_slash base @ [''mappers'']]"
  by (simp add: folders_def split_slash_append)

lemma files_split:
  assumes "CHR ''/'' \<notin> set name"
  shows "map (\<lambda>(path, content). split_slash path) (files name Name base) =
     [split_slash base @ [''domain'', name @ ''.domain.ts''],
      split_slash base @ [''dto'', ''create-'' @ name @ ''.dto.ts''],
      split_slash base @ [''dto'', ''update-'' @ name @ ''.dto.ts''],
      split_slash base @ [''dto'', ''filter-'' @ name @ ''.dto.ts''],
      split_slash base @ [''infrastructure'', ''entities'', name @ ''.entity.ts''],
      split_slash base @ [''infrastructure'', ''repositories'', name @ ''.repository.ts''],
      split_slash base @ [''infrastructure'', ''repositories'', name @ ''.repository.impl.ts''],
      split_slash base @ [''mappers'', name @ ''.mapper.ts''],
      split_slash base @ [''infrastructure'', ''providers'', name @ ''.providers.ts''],
      split_slash base @ [name @ ''.service.ts''],
      split_slash base @ [name @ ''.controller.ts''],
      split_slash base @ [name @ ''.module.ts'']]"
proof -
  have leaf: "split_slash (pre @ name @ post) = [pre @ name @ post]"
    if "CHR ''/'' \<notin> set pre" "CHR ''/'' \<notin> set post" for pre post
    using assms that by (simp add: split_slash_plain)
  show ?thesis
    unfolding files_entries
    using leaf [of "[]"] leaf [of "''create-''"] leaf [of "''update-''"] leaf [of "''filter-''"]
    by (simp add: split_slash_append)
qed

lemma split_slash_leaf:
  "CHR ''/'' \<notin> set name \<Longrightarrow> CHR ''/'' \<notin> set pre \<Longrightarrow> CHR ''/'' \<notin> set post \<Longrightarrow>
   split_slash (pre @ name @ post) = [pre @ name @ post]"
  by (simp add: split_slash_plain)

lemma folders_plain:
  assumes "base \<noteq> []" and "hd base \<noteq> CHR ''/''" and "names_only (split_slash base)"
  shows "\<forall>d \<in> set (folders base). plain_path d"
  using assms by (simp add: folders_def plain_path_def split_slash_append names_only_def)

lemma files_plain:
  assumes "base \<noteq> []" and "hd base \<noteq> CHR ''/''" and "names_only (split_slash base)"
    and "CHR ''/'' \<notin> set name"
  shows "\<forall>(path, content) \<in> set (files name Name base). plain_path path"
  unfolding files_entries
  using assms split_slash_leaf [of name "[]"] split_slash_leaf [of name "''create-''"]
    split_slash_leaf [of name "''update-''"] split_slash_leaf [of name "''filter-''"]
  by (simp add: plain_path_def split_slash_append names_only_def)

lemma made_dirs_of_folders:
  "set (concat (map (\<lambda>d. made_dirs cur (split_slash d)) (folders base))) =
     set (made_dirs cur (split_slash base)) \<union>
     {cur @ split_slash base @ [''domain''],
      cur @ split_slash base @ [''dto''],
      cur @ split_slash base @ [''infrastructure''],
      cur @ split_slash base @ [''infrastructure'', ''entities''],
      cur @ split_slash base @ [''infrastructure'', ''repositories''],
      cur @ split_slash base @ [''infrastructure'', ''providers''],
      cur @ split_slash base @ [''mappers'']}"
  by (auto simp: folders_def split_slash_append made_dirs_append)

lemma file_parents:
  assumes "CHR ''/'' \<notin> set name"
  shows "\<forall>(path, content) \<in> set (files name Name base).
           set (made_dirs cur (butlast (split_slash path)))
             \<subseteq> set (concat (map (\<lambda>d. made_dirs cur (split_slash d)) (folders base)))"
  unfolding files_entries made_dirs_of_folders
  using assms split_slash_leaf [of name "[]"] split_slash_leaf [of name "''create-''"]
    split_slash_leaf [of name "''update-''"] split_slash_leaf [of name "''filter-''"]
  by (auto simp: split_slash_append butlast_append made_dirs_append)

lemma targets_not_made:
  assumes "CHR ''/'' \<notin> set name"
  shows "\<forall>(path, content) \<in> set (files name Name base).
           cur @ split_slash path
             \<notin> set (concat (map (\<lambda>d. made_dirs cur (split_slash d)) (folders base)))"
  unfolding files_entries made_dirs_of_folders
  using assms split_slash_leaf [of name "[]"] split_slash_leaf [of name "''create-''"]
    split_slash_leaf [of name "''update-''"] split_slash_leaf [of name "''filter-''"]
  by (simp add: split_slash_append)
    (auto dest: length_made_dirs arg_cong [where f = length])

lemma generate_module_plain:
  assumes name: "name \<noteq> []" and slash: "CHR ''/'' \<notin> set name"
    and free: "nothing_in_the_way fs (folders (path_join [''src'', ''core'', name]))
                 (map fst (files name (capitalize name) (path_join [''src'', ''core'', name])))"
  shows "generate_module (Some name) fs =
    (\<lparr>exit_code = 0, stderr = [], stdout = report name,
       fs_calls = map mkdirSync (folders (path_join [''src'', ''core'', name]))
                  @ map (\<lambda>(file, text). writeFileSync file text)
                      (files name (capitalize name) (path_join [''src'', ''core'', name])),
       uncaught = None\<rparr>,
     fs\<lparr>nodes :=
          with_files
            (with_dirs (nodes fs)
               (concat (map (\<lambda>d. made_dirs (cwd fs) (split_slash d))
                          (folders (path_join [''src'', ''core'', name])))))
            (cwd fs)
            (files name (capitalize name) (path_join [''src'', ''core'', name]))\<rparr>)"
proof -
  define base where "base = path_join [''src'', ''core'', name]"
  define Name where "Name = capitalize name"
  define D where "D = concat (map (\<lambda>d. made_dirs (cwd fs) (split_slash d)) (folders base))"
  define fs1 where "fs1 = fs\<lparr>nodes := with_dirs (nodes fs) D\<rparr>"
  note b = base_of_plain_name [OF name slash, folded base_def]
  have fp: "\<forall>d \<in> set (folders base). plain_path d"
    by (rule folders_plain [OF b])
  have wp: "\<forall>(path, content) \<in> set (files name Name base). plain_path path"
    by (rule files_plain [OF b slash])
  from free have cwd: "nodes fs (cwd fs) = Some Dir"
    and nodir: "\<forall>(path, content) \<in> set (files name Name base).
                  nodes fs (cwd fs @ split_slash path) \<noteq> Some Dir"
    unfolding nothing_in_the_way_def base_def Name_def by auto
  have nofile: "\<forall>d \<in> set (folders base). \<forall>p \<in> set (made_dirs (cwd fs) (split_slash d)).
                  \<forall>content. nodes fs p \<noteq> Some (File content)"
  proof (intro ballI allI)
    fix d p content
    assume "d \<in> set (folders base)" and "p \<in> set (made_dirs (cwd fs) (split_slash d))"
    with free have "\<not> is_file (nodes fs p)"
      unfolding nothing_in_the_way_def base_def Name_def by blast
    then show "nodes fs p \<noteq> Some (File content)"
      by auto
  qed
  have mk: "run_calls (map mkdirSync (folders base) @ rest) fs =
              (case run_calls rest fs1 of
                 (done, err, fs') \<Rightarrow> (map mkdirSync (folders base) @ done, err, fs'))" for rest
    unfolding fs1_def D_def by (rule run_calls_mkdirs [OF fp nofile])
  have fs1: "cwd fs1 = cwd fs" "nodes fs1 = with_dirs (nodes fs) D"
    by (simp_all add: fs1_def)
  have w2: "\<forall>(path, content) \<in> set (files name Name base).
              \<forall>p \<in> set (cwd fs1 # made_dirs (cwd fs1) (butlast (split_slash path))).
                nodes fs1 p = Some Dir"
  proof clarify
    fix path content p
    assume m: "(path, content) \<in> set (files name Name base)"
      and p: "p \<in> set (cwd fs1 # made_dirs (cwd fs1) (butlast (split_slash path)))"
    from file_parents [OF slash, of Name base "cwd fs"] m
    have "set (made_dirs (cwd fs) (butlast (split_slash path))) \<subseteq> set D"
      unfolding D_def by auto
    with p cwd show "nodes fs1 p = Some Dir"
      by (auto simp: fs1 with_dirs_def)
  qed
  have w3: "\<forall>(path, content) \<in> set (files name Name base).
              nodes fs1 (cwd fs1 @ split_slash path) \<noteq> Some Dir"
  proof clarify
    fix path content
    assume m: "(path, content) \<in> set (files name Name base)"
      and dir: "nodes fs1 (cwd fs1 @ split_slash path) = Some Dir"
    from targets_not_made [OF slash, of Name base "cwd fs"] m
    have "cwd fs @ split_slash path \<notin> set D"
      unfolding D_def by blast
    moreover from nodir m have "nodes fs (cwd fs @ split_slash path) \<noteq> Some Dir"
      by blast
    ultimately show False
      using dir by (simp add: fs1 with_dirs_def)
  qed
  have wr: "run_calls (map (\<lambda>(file, text). writeFileSync file text) (files name Name base)) fs1 =
              (map (\<lambda>(file, text). writeFileSync file text) (files name Name base), None,
               fs1\<lparr>nodes := with_files (nodes fs1) (cwd fs1) (files name Name base)\<rparr>)"
    using wp w2 w3 by (rule run_calls_writes)
  have "run_calls (map mkdirSync (folders base)
                   @ map (\<lambda>(file, text). writeFileSync file text) (files name Name base)) fs =
          (map mkdirSync (folders base)
           @ map (\<lambda>(file, text). writeFileSync file text) (files name Name base), None,
           fs\<lparr>nodes := with_files (with_dirs (nodes fs) D) (cwd fs) (files name Name base)\<rparr>)"
    by (simp add: mk wr fs1)
  then show ?thesis
    using name by (simp add: generate_module_def Let_def base_def Name_def D_def)
qed

lemma with_files_same:
  "\<forall>(path, content) \<in> set ws. ns (cur @ split_slash path) = Some (File content) \<Longrightarrow>
   with_files ns cur ws = ns"
proof (induction ws arbitrary: ns)
  case Nil
  then show ?case by simp
next
  case (Cons w ws)
  obtain path content where w: "w = (path, content)" by (cases w)
  from Cons.prems have "ns (cur @ split_slash path) = Some (File content)"
    by (simp add: w)
  then have "ns(cur @ split_slash path \<mapsto> File content) = ns"
    by (rule map_upd_triv)
  then show ?case
    using Cons by (simp add: w)
qed

lemma generated_nodes:
  fixes name Name base :: string and cur :: "string list" and ns :: "string list \<rightharpoonup> node"
  assumes slash: "CHR ''/'' \<notin> set name"
    and cwd: "ns cur = Some Dir"
  defines "D \<equiv> concat (map (\<lambda>d. made_dirs cur (split_slash d)) (folders base))"
  defines "N \<equiv> with_files (with_dirs ns D) cur (files name Name base)"
  shows "N cur = Some Dir"
    and "\<forall>p \<in> set D. N p = Some Dir"
    and "\<forall>(path, content) \<in> set (files name Name base).
           N (cur @ split_slash path) = Some (File content)"
proof -
  have d: "distinct (map fst (files name Name base))"
    using keys_distinct [of base name] by (simp add: files_entries)
  show "\<forall>(path, content) \<in> set (files name Name base).
          N (cur @ split_slash path) = Some (File content)"
    unfolding N_def using with_files_target [OF d] by auto
  have "cur \<notin> (\<lambda>(path, content). cur @ split_slash path) ` set (files name Name base)"
    using split_slash_not_Nil by auto
  then have "N cur = with_dirs ns D cur"
    unfolding N_def by (rule with_files_other)
  then show "N cur = Some Dir"
    using cwd by (simp add: with_dirs_def)
  show "\<forall>p \<in> set D. N p = Some Dir"
  proof
    fix p assume p: "p \<in> set D"
    have "p \<notin> (\<lambda>(path, content). cur @ split_slash path) ` set (files name Name base)"
      using targets_not_made [OF slash, of Name base cur] p unfolding D_def by auto
    then have "N p = with_dirs ns D p"
      unfolding N_def by (rule with_files_other)
    then show "N p = Some Dir"
      using p by (simp add: with_dirs_def)
  qed
qed

lemma generate_module_again:
  assumes name: "name \<noteq> []" and slash: "CHR ''/'' \<notin> set name"
    and free: "nothing_in_the_way fs (folders (path_join [''src'', ''core'', name]))
                 (map fst (files name (capitalize name) (path_join [''src'', ''core'', name])))"
  shows "generate_module (Some name) (snd (generate_module (Some name) fs)) =
           generate_module (Some name) fs"
proof -
  define base where "base = path_join [''src'', ''core'', name]"
  define Name where "Name = capitalize name"
  define D where "D = concat (map (\<lambda>d. made_dirs (cwd fs) (split_slash d)) (folders base))"
  define N where "N = with_files (with_dirs (nodes fs) D) (cwd fs) (files name Name base)"
  define fs' where "fs' = fs\<lparr>nodes := N\<rparr>"
  note first = generate_module_plain [OF name slash free, folded base_def Name_def, folded D_def,
      folded N_def, folded fs'_def]
  from free have cwd: "nodes fs (cwd fs) = Some Dir"
    unfolding nothing_in_the_way_def by simp
  note g = generated_nodes [where ns = "nodes fs" and cur = "cwd fs" and name = name and base = base
      and Name = Name, OF slash cwd, folded D_def, folded N_def]
  have fs': "cwd fs' = cwd fs" "nodes fs' = N"
    by (simp_all add: fs'_def)
  have free': "nothing_in_the_way fs' (folders base) (map fst (files name Name base))"
    unfolding nothing_in_the_way_def fs' using g by (fastforce simp: D_def)
  have dirs: "with_dirs N D = N"
    using g(2) by (auto simp: with_dirs_def)
  have same: "with_files N (cwd fs) (files name Name base) = N"
    using g(3) by (rule with_files_same)
  have "generate_module (Some name) fs' = generate_module (Some name) fs"
    unfolding first
    using generate_module_plain [OF name slash free' [unfolded base_def Name_def]]
    by (simp add: base_def [symmetric] Name_def [symmetric] fs' D_def [symmetric] dirs same)
  then show ?thesis
    by (simp add: first)
qed

subsection \<open>Example runs\<close>

lemma room_base: "path_join [''src'', ''core'', ''room''] = ''src/core/room''"
  by (simp add: path_join_def path_normalize_def normalizeString_def normalize_step_def)

lemma room_Name: "capitalize ''room'' = ''Room''"
  by code_simp

lemma room_in_empty_project:
  "nothing_in_the_way empty_project (folders (path_join [''src'', ''core'', ''room'']))
     (map fst (files ''room'' (capitalize ''room'') (path_join [''src'', ''core'', ''room''])))"
  unfolding room_base room_Name
  by (simp add: nothing_in_the_way_def empty_project_def folders_def files_entries)

lemma room_in_used_project:
  "nothing_in_the_way used_project (folders (path_join [''src'', ''core'', ''room'']))
     (map fst (files ''room'' (capitalize ''room'') (path_join [''src'', ''core'', ''room''])))"
  unfolding room_base room_Name
  by (simp add: nothing_in_the_way_def used_project_def folders_def files_entries)

lemma room_ascii: "ascii ''room''"
  by (simp add: ascii_def)

text \<open>
  A name with a slash: the seven directories are made, and the first write, to
  \<^verbatim>\<open>src/core/a/b/domain/a/b.domain.ts\<close>, finds no directory \<^verbatim>\<open>domain/a\<close> and ends the run.
\<close>

lemma slash_base: "path_join [''src'', ''core'', ''a/b''] = ''src/core/a/b''"
  by (simp add: path_join_def path_normalize_def normalizeString_def normalize_step_def)

lemma generator_name_with_slash:
  "fst (generate_module (Some ''a/b'') empty_project) =
     \<lparr>exit_code = 1, stderr = [], stdout = [],
      fs_calls = map mkdirSync (folders ''src/core/a/b''), uncaught = Some ENOENT\<rparr>"
  by (simp add: generate_module_def slash_base Let_def folders_def files_entries
      empty_project_def start_dir_def write_file_def)

text \<open>
  Claim C2, as amended. For every resource name that is a non-empty string of ASCII
  characters without a slash, run on a file system in which nothing is in the way, the
  generator ends with status 0 and writes exactly twelve files, one per template (domain
  type, create-request, update-request and filter-request types, persistence entity,
  repository port, repository adapter, mapper, dependency-wiring declarations, service,
  HTTP controller, module-wiring declaration): the files written are, in this order, the
  twelve designated paths under the module root, each with the text of its template for
  the name and its capitalised form; the twelve paths are pairwise different; and after
  the run each of them holds its text in the file system. The claim counts eleven files;
  it lists twelve templates, and the script writes twelve. The claim speaks of every
  resource name; for a name with a slash the script does not create the directories of
  the files it then writes.
\<close>

theorem generator_writes_twelve_files:
  assumes "name \<noteq> []" and "CHR ''/'' \<notin> set name" and "ascii name"
    and "nothing_in_the_way fs (folders (path_join [''src'', ''core'', name]))
           (map fst (files name (capitalize name) (path_join [''src'', ''core'', name])))"
  shows "case generate_module (Some name) fs of
           (r, fs') \<Rightarrow>
             let Name = capitalize name;
                 base = path_join [''src'', ''core'', name];
                 written = writes (fs_calls r)
             in exit_code r = 0 \<and> uncaught r = None
                \<and> written =
                  [(base @ ''/domain/'' @ name @ ''.domain.ts'', domain_ts name Name),
                   (base @ ''/dto/create-'' @ name @ ''.dto.ts'', create_dto_ts name Name),
                   (base @ ''/dto/update-'' @ name @ ''.dto.ts'', update_dto_ts name Name),
                   (base @ ''/dto/filter-'' @ name @ ''.dto.ts'', filter_dto_ts name Name),
                   (base @ ''/infrastructure/entities/'' @ name @ ''.entity.ts'', entity_ts name Name),
                   (base @ ''/infrastructure/repositories/'' @ name @ ''.repository.ts'', repository_ts name Name),
                   (base @ ''/infrastructure/repositories/'' @ name @ ''.repository.impl.ts'', repository_impl_ts name Name),
                   (base @ ''/mappers/'' @ name @ ''.mapper.ts'', mapper_ts name Name),
                   (base @ ''/infrastructure/providers/'' @ name @ ''.providers.ts'', providers_ts name Name),
                   (base @ ''/'' @ name @ ''.service.ts'', service_ts name Name),
                   (base @ ''/'' @ name @ ''.controller.ts'', controller_ts name Name),
                   (base @ ''/'' @ name @ ''.module.ts'', module_ts name Name)]
                \<and> length written = 12
                \<and> distinct (map fst written)
                \<and> (\<forall>(path, content) \<in> set written.
                      nodes fs' (cwd fs @ split_slash path) = Some (File content))"
proof -
  from assms(4) have cwd: "nodes fs (cwd fs) = Some Dir"
    by (simp add: nothing_in_the_way_def)
  have d: "distinct (map fst (files name (capitalize name) (path_join [''src'', ''core'', name])))"
    using keys_distinct [of "path_join [''src'', ''core'', name]" name]
    by (simp add: files_entries)
  note g = generated_nodes [where ns = "nodes fs" and cur = "cwd fs" and name = name
      and base = "path_join [''src'', ''core'', name]" and Name = "capitalize name",
      OF assms(2) cwd]
  show ?thesis
    unfolding generate_module_plain [OF assms(1,2,4)]
    using d g(3) by (simp add: Let_def writes_map_calls) (simp add: files_entries)
qed

theorem generator_writes_twelve_files_witness:
  "(case generate_module (Some ''room'') empty_project of
      (r, fs') \<Rightarrow>
        exit_code r = 0
        \<and> map fst (writes (fs_calls r)) =
          [''src/core/room/domain/room.domain.ts'',
           ''src/core/room/dto/create-room.dto.ts'',
           ''src/core/room/dto/update-room.dto.ts'',
           ''src/core/room/dto/filter-room.dto.ts'',
           ''src/core/room/infrastructure/entities/room.entity.ts'',
           ''src/core/room/infrastructure/repositories/room.repository.ts'',
           ''src/core/room/infrastructure/repositories/room.repository.impl.ts'',
           ''src/core/room/mappers/room.mapper.ts'',
           ''src/core/room/infrastructure/providers/room.providers.ts'',
           ''src/core/room/room.service.ts'',
           ''src/core/room/room.controller.ts'',
           ''src/core/room/room.module.ts'']
        \<and> map snd (writes (fs_calls r)) =
          [domain_ts ''room'' ''Room'', create_dto_ts ''room'' ''Room'',
           update_dto_ts ''room'' ''Room'', filter_dto_ts ''room'' ''Room'',
           entity_ts ''room'' ''Room'', repository_ts ''room'' ''Room'',
           repository_impl_ts ''room'' ''Room'', mapper_ts ''room'' ''Room'',
           providers_ts ''room'' ''Room'', service_ts ''room'' ''Room'',
           controller_ts ''room'' ''Room'', module_ts ''room'' ''Room'']
        \<and> length (writes (fs_calls r)) = 12
        \<and> nodes fs' [''project'', ''src'', ''core'', ''room'', ''room.module.ts'']
            = Some (File (module_ts ''room'' ''Room'')))"
proof -
  have ne: "''room'' \<noteq> []" and slash: "CHR ''/'' \<notin> set ''room''" by simp_all
  have c: "cwd empty_project = [''project'']" by (simp add: empty_project_def)
  have s: "split_slash ''src/core/room/room.module.ts''
             = [''src'', ''core'', ''room'', ''room.module.ts'']" by simp
  show ?thesis
    using generator_writes_twelve_files [OF ne slash room_ascii room_in_empty_project]
    unfolding room_base room_Name Let_def c
    by (auto simp: s)
qed

text \<open>
  The claim C2 as stated fails: for the name \<^verbatim>\<open>room\<close> in an empty project directory
  the number of files written is not eleven.
\<close>

theorem generator_eleven_files_counterexample:
  "length (writes (fs_calls (fst (generate_module (Some ''room'') empty_project)))) \<noteq> 11"
proof -
  have ne: "''room'' \<noteq> []" and slash: "CHR ''/'' \<notin> set ''room''" by simp_all
  show ?thesis
    unfolding generate_module_plain [OF ne slash room_in_empty_project]
    by (simp only: writes_map_calls fst_conv run.simps) (simp add: files_entries)
qed

text \<open>
  Claim C6. When the resource-name argument is missing or empty, the generator prints an
  error, exits with status 1 and makes no file-system call: no directory is created and
  no file is written, and the file system, whatever it holds, is left as it was.
\<close>

theorem generator_without_name:
  "argv2 = None \<or> argv2 = Some [] \<Longrightarrow>
   (case generate_module argv2 fs of
      (r, fs') \<Rightarrow>
        exit_code r = 1
        \<and> exit_code r \<noteq> 0
        \<and> stderr r = [cross_mark @ '' Module name required'']
        \<and> stdout r = []
        \<and> fs_calls r = []
        \<and> uncaught r = None
        \<and> fs' = fs)"
  by (auto simp: generate_module_def missing_name_def)

theorem generator_without_name_witness:
  "exit_code (fst (generate_module None used_project)) = 1
   \<and> fs_calls (fst (generate_module None used_project)) = []
   \<and> snd (generate_module None used_project) = used_project
   \<and> exit_code (fst (generate_module (Some []) used_project)) = 1
   \<and> fs_calls (fst (generate_module (Some []) used_project)) = []
   \<and> snd (generate_module (Some []) used_project) = used_project"
  using generator_without_name [of None used_project]
    generator_without_name [of "Some []" used_project]
  by (simp add: split_beta)

text \<open>
  Claim C7. The files the generator writes are a function of the name alone; the script
  reads nothing but its argument and what the file-system calls return. For a non-empty
  ASCII name without a slash and any two file systems in which nothing is in the way,
  the two runs show the same to the outside (status, console lines and calls), both
  write the twelve designated paths with the texts of the templates for that name, after
  each run every generated path holds that text, whatever was there before, and a second
  run on the result of the first is the same run again and leaves the file system as it
  is.
\<close>

theorem generator_deterministic:
  assumes "name \<noteq> []" and "CHR ''/'' \<notin> set name" and "ascii name"
    and "nothing_in_the_way fs1 (folders (path_join [''src'', ''core'', name]))
           (map fst (files name (capitalize name) (path_join [''src'', ''core'', name])))"
    and "nothing_in_the_way fs2 (folders (path_join [''src'', ''core'', name]))
           (map fst (files name (capitalize name) (path_join [''src'', ''core'', name])))"
  shows "case generate_module (Some name) fs1 of
           (r1, fs1') \<Rightarrow>
             case generate_module (Some name) fs2 of
               (r2, fs2') \<Rightarrow>
                 let Name = capitalize name;
                     base = path_join [''src'', ''core'', name]
                 in r1 = r2
                    \<and> writes (fs_calls r1) =
                      [(base @ ''/domain/'' @ name @ ''.domain.ts'', domain_ts name Name),
                       (base @ ''/dto/create-'' @ name @ ''.dto.ts'', create_dto_ts name Name),
                       (base @ ''/dto/update-'' @ name @ ''.dto.ts'', update_dto_ts name Name),
                       (base @ ''/dto/filter-'' @ name @ ''.dto.ts'', filter_dto_ts name Name),
                       (base @ ''/infrastructure/entities/'' @ name @ ''.entity.ts'', entity_ts name Name),
                       (base @ ''/infrastructure/repositories/'' @ name @ ''.repository.ts'', repository_ts name Name),
                       (base @ ''/infrastructure/repositories/'' @ name @ ''.repository.impl.ts'', repository_impl_ts name Name),
                       (base @ ''/mappers/'' @ name @ ''.mapper.ts'', mapper_ts name Name),
                       (base @ ''/infrastructure/providers/'' @ name @ ''.providers.ts'', providers_ts name Name),
                       (base @ ''/'' @ name @ ''.service.ts'', service_ts name Name),
                       (base @ ''/'' @ name @ ''.controller.ts'', controller_ts name Name),
                       (base @ ''/'' @ name @ ''.module.ts'', module_ts name Name)]
                    \<and> (\<forall>(path, content) \<in> set (writes (fs_calls r1)).
                          nodes fs1' (cwd fs1 @ split_slash path) = Some (File content)
                          \<and> nodes fs2' (cwd fs2 @ split_slash path) = Some (File content))
                    \<and> generate_module (Some name) fs1' = (r1, fs1')"
proof -
  let ?base = "path_join [''src'', ''core'', name]"
  from assms(4) have cwd1: "nodes fs1 (cwd fs1) = Some Dir"
    by (simp add: nothing_in_the_way_def)
  from assms(5) have cwd2: "nodes fs2 (cwd fs2) = Some Dir"
    by (simp add: nothing_in_the_way_def)
  note g1 = generated_nodes [where ns = "nodes fs1" and cur = "cwd fs1" and name = name
      and base = ?base and Name = "capitalize name", OF assms(2) cwd1]
  note g2 = generated_nodes [where ns = "nodes fs2" and cur = "cwd fs2" and name = name
      and base = ?base and Name = "capitalize name", OF assms(2) cwd2]
  note again = generate_module_again [OF assms(1,2,4)]
  show ?thesis
    using again g1(3) g2(3)
    unfolding generate_module_plain [OF assms(1,2,4)] generate_module_plain [OF assms(1,2,5)]
    by (simp add: Let_def writes_map_calls) (simp add: files_entries)
qed

theorem generator_deterministic_witness:
  "(case generate_module (Some ''room'') empty_project of
      (r1, fs1') \<Rightarrow>
        case generate_module (Some ''room'') used_project of
          (r2, fs2') \<Rightarrow>
            r1 = r2
            \<and> nodes fs1' [''project'', ''src'', ''core'', ''room'', ''room.module.ts'']
                = Some (File (module_ts ''room'' ''Room''))
            \<and> nodes fs2' [''project'', ''src'', ''core'', ''room'', ''room.module.ts'']
                = Some (File (module_ts ''room'' ''Room''))
            \<and> nodes fs1' [''project'', ''src'', ''core'', ''room'', ''dto'', ''create-room.dto.ts'']
                = Some (File (create_dto_ts ''room'' ''Room''))
            \<and> nodes fs2' [''project'', ''src'', ''core'', ''room'', ''dto'', ''create-room.dto.ts'']
                = Some (File (create_dto_ts ''room'' ''Room''))
            \<and> generate_module (Some ''room'') fs1' = (r1, fs1'))"
proof -
  have ne: "''room'' \<noteq> []" and slash: "CHR ''/'' \<notin> set ''room''" by simp_all
  have c: "cwd empty_project = [''project'']" "cwd used_project = [''project'']"
    by (simp_all add: empty_project_def used_project_def)
  have s: "split_slash ''src/core/room/room.module.ts''
             = [''src'', ''core'', ''room'', ''room.module.ts'']"
    "split_slash ''src/core/room/dto/create-room.dto.ts''
             = [''src'', ''core'', ''room'', ''dto'', ''create-room.dto.ts'']" by simp_all
  show ?thesis
    using generator_deterministic [OF ne slash room_ascii room_in_empty_project
        room_in_used_project]
    unfolding room_base room_Name Let_def c
    by (auto simp: s)
qed

section \<open>Properties of the generated module\<close>

lemmas promise_defs = await_def resolved_def throw_def

lemmas table_defs =
  table_orm_def table_findAndCount_def table_findOne_def table_update_def
  table_softDelete_def entity_columns_def live_def order_by_def sort_by_def column_le_def
  Let_def

lemma Min_validator_iff:
  "Min_validator m n = (n = Infinity \<or> (\<exists>x. n = Finite x \<and> m \<le> x))"
  by (cases n) simp_all


lemma validated_offset:
  "validate_PaginationDto q \<Longrightarrow> Min_validator 0 (or_number (dto_offset q) (Finite 0))"
  by (auto simp: validate_PaginationDto_def IsOptional_def or_number_def split: option.splits)




text \<open>
  Claim C3. When the lookup by id finds no entity, the service's \<open>update\<close> and \<open>delete\<close>
  end with the not-found exception in the state the lookup left. The repository's
  \<open>update\<close> and \<open>delete\<close> are not called, whatever they are (\<open>u\<close> and \<open>d\<close> are
  arbitrary), and with the generated adapter as the repository the persistence layer's
  \<open>update\<close> and \<open>softDelete\<close> are not called, whatever they are (\<open>u'\<close> and \<open>d'\<close>). On
  the in-memory table, an id that no live row carries gives the not-found exception and
  leaves the table unchanged.
\<close>

theorem service_checks_existence_first:
  "(repo_findById repo i s = (Inr None, s')
    \<longrightarrow> Service_update Name (repo\<lparr>repo_update := u\<rparr>) i data s
          = (Inl (NotFoundException (Name @ '' '' @ i @ '' not found'')), s')
        \<and> Service_delete Name (repo\<lparr>repo_delete := d\<rparr>) i s
          = (Inl (NotFoundException (Name @ '' '' @ i @ '' not found'')), s'))
   \<and> (orm_findOne orm (Where_id i) s = (Inr None, s')
    \<longrightarrow> Service_update Name
            (RepositoryImpl (orm\<lparr>orm_update := u', orm_softDelete := d'\<rparr>)) i data s
          = (Inl (NotFoundException (Name @ '' '' @ i @ '' not found'')), s')
        \<and> Service_delete Name
            (RepositoryImpl (orm\<lparr>orm_update := u', orm_softDelete := d'\<rparr>)) i s
          = (Inl (NotFoundException (Name @ '' '' @ i @ '' not found'')), s'))
   \<and> ((\<forall>e \<in> set (tbl_rows t). deletedAt e = None \<longrightarrow> ent_id e \<noteq> i)
    \<longrightarrow> Service_update Name (RepositoryImpl table_orm) i data t
          = (Inl (NotFoundException (Name @ '' '' @ i @ '' not found'')), t)
        \<and> Service_delete Name (RepositoryImpl table_orm) i t
          = (Inl (NotFoundException (Name @ '' '' @ i @ '' not found'')), t))"
proof -
  have adapter: "repo_findById (RepositoryImpl (orm\<lparr>orm_update := u', orm_softDelete := d'\<rparr>)) i s
                   = (Inr None, s')"
    if "orm_findOne orm (Where_id i) s = (Inr None, s')"
    using that by (simp add: RepositoryImpl_def RepositoryImpl_findById_def)
  have table: "repo_findById (RepositoryImpl table_orm) i t = (Inr None, t)"
    if "\<forall>e \<in> set (tbl_rows t). deletedAt e = None \<longrightarrow> ent_id e \<noteq> i"
  proof -
    have "find (matches (Where_id i)) (live (tbl_rows t)) = None"
      using that by (auto simp: find_None_iff live_def)
    then show ?thesis
      by (simp add: RepositoryImpl_def RepositoryImpl_findById_def table_orm_def
          table_findOne_def promise_defs)
  qed
  have port: "Service_update Name repo' i data s
          = (Inl (NotFoundException (Name @ '' '' @ i @ '' not found'')), s')
        \<and> Service_delete Name repo' i s
          = (Inl (NotFoundException (Name @ '' '' @ i @ '' not found'')), s')"
    if "repo_findById repo' i s = (Inr None, s')" for repo' :: "'b NameRepository" and s s'
    using that
    by (simp add: Service_update_def Service_delete_def Service_findOne_def promise_defs)
  show ?thesis
    using port [of "repo\<lparr>repo_update := u\<rparr>" s s'] port [of "repo\<lparr>repo_delete := d\<rparr>" s s']
      port [of "RepositoryImpl (orm\<lparr>orm_update := u', orm_softDelete := d'\<rparr>)" s s'] adapter
      port [of "RepositoryImpl table_orm" t t] table
    by simp
qed

theorem service_checks_existence_first_witness:
  "(let t = \<lparr>tbl_rows =
               [\<lparr>ent_id = ''a1'', createdAt = 100, updatedAt = 100, deletedAt = None\<rparr>,
                \<lparr>ent_id = ''c3'', createdAt = 300, updatedAt = 300, deletedAt = Some 400\<rparr>],
             tbl_now = 500\<rparr>
    in Service_update ''Room'' (RepositoryImpl table_orm) ''c3'' [(''createdAt'', Timestamp 7)] t
         = (Inl (NotFoundException ''Room c3 not found''), t)
       \<and> Service_delete ''Room'' (RepositoryImpl table_orm) ''zz'' t
         = (Inl (NotFoundException ''Room zz not found''), t)
       \<and> Service_update ''Room''
           ((RepositoryImpl table_orm)\<lparr>repo_update := \<lambda>i data. throw (Error ''reached'')\<rparr>)
           ''zz'' [] t
         = (Inl (NotFoundException ''Room zz not found''), t))"
proof -
  let ?t = "\<lparr>tbl_rows =
               [\<lparr>ent_id = ''a1'', createdAt = 100, updatedAt = 100, deletedAt = None\<rparr>,
                \<lparr>ent_id = ''c3'', createdAt = 300, updatedAt = 300, deletedAt = Some 400\<rparr>],
             tbl_now = 500\<rparr>"
  have miss: "repo_findById (RepositoryImpl table_orm) ''zz'' ?t = (Inr None, ?t)"
    by (simp add: RepositoryImpl_def RepositoryImpl_findById_def promise_defs table_defs)
  from service_checks_existence_first
         [where t = ?t and i = "''c3''" and Name = "''Room''"
            and data = "[(''createdAt'', Timestamp 7)]", THEN conjunct2, THEN conjunct2]
  have 1: "Service_update ''Room'' (RepositoryImpl table_orm) ''c3'' [(''createdAt'', Timestamp 7)] ?t
         = (Inl (NotFoundException ''Room c3 not found''), ?t)"
    by simp
  from service_checks_existence_first
         [where t = ?t and i = "''zz''" and Name = "''Room''", THEN conjunct2, THEN conjunct2]
  have 2: "Service_delete ''Room'' (RepositoryImpl table_orm) ''zz'' ?t
         = (Inl (NotFoundException ''Room zz not found''), ?t)"
    by simp
  from miss service_checks_existence_first
         [where repo = "RepositoryImpl table_orm" and i = "''zz''" and s = ?t and s' = ?t
            and Name = "''Room''" and u = "\<lambda>i data. throw (Error ''reached'')"
            and data = "[]", THEN conjunct1]
  have 3: "Service_update ''Room''
           ((RepositoryImpl table_orm)\<lparr>repo_update := \<lambda>i data. throw (Error ''reached'')\<rparr>)
           ''zz'' [] ?t
         = (Inl (NotFoundException ''Room zz not found''), ?t)"
    by simp
  show ?thesis unfolding Let_def using 1 2 3 by simp
qed

text \<open>
  Claim C9. In the adapter, \<open>update\<close> looks the entity up after the update and, when the
  lookup finds nothing, throws a plain \<open>Error\<close>. The service's \<open>update\<close>, when its
  lookup before the update finds nothing, throws \<open>NotFoundException\<close>. The two are
  different kinds of exception.
\<close>

theorem update_guarded_in_both_layers:
  "(orm_update orm i data s = (Inr (), sa) \<and> orm_findOne orm (Where_id i) sa = (Inr None, sb)
    \<longrightarrow> RepositoryImpl_update orm i data s
          = (Inl (Error (''Entity '' @ i @ '' not found'')), sb))
   \<and> (repo_findById repo i s = (Inr None, s')
    \<longrightarrow> Service_update Name repo i data s
          = (Inl (NotFoundException (Name @ '' '' @ i @ '' not found'')), s'))
   \<and> (\<forall>m m'. Error m \<noteq> NotFoundException m')"
  by (simp add: RepositoryImpl_update_def RepositoryImpl_findById_def Service_update_def
      Service_findOne_def promise_defs)

theorem update_guarded_in_both_layers_witness:
  "(let t = \<lparr>tbl_rows =
               [\<lparr>ent_id = ''a1'', createdAt = 100, updatedAt = 100, deletedAt = None\<rparr>],
             tbl_now = 500\<rparr>
    in RepositoryImpl_update table_orm ''zz'' [(''createdAt'', Timestamp 7)] t
         = (Inl (Error ''Entity zz not found''), t)
       \<and> Service_update ''Room'' (RepositoryImpl table_orm) ''zz'' [(''createdAt'', Timestamp 7)] t
         = (Inl (NotFoundException ''Room zz not found''), t))"
proof -
  let ?t = "\<lparr>tbl_rows =
               [\<lparr>ent_id = ''a1'', createdAt = 100, updatedAt = 100, deletedAt = None\<rparr>],
             tbl_now = 500\<rparr>"
  have u: "orm_update table_orm ''zz'' [(''createdAt'', Timestamp 7)] ?t = (Inr (), ?t)"
    by (simp add: promise_defs table_defs)
  have f: "orm_findOne table_orm (Where_id ''zz'') ?t = (Inr None, ?t)"
    by (simp add: promise_defs table_defs)
  have g: "repo_findById (RepositoryImpl table_orm) ''zz'' ?t = (Inr None, ?t)"
    by (simp add: RepositoryImpl_def RepositoryImpl_findById_def promise_defs table_defs)
  note inst = update_guarded_in_both_layers
    [where orm = table_orm and i = "''zz''" and data = "[(''createdAt'', Timestamp 7)]"
       and s = ?t and sa = ?t and sb = ?t and repo = "RepositoryImpl table_orm"
       and s' = ?t and Name = "''Room''"]
  from u f inst [THEN conjunct1]
  have 1: "RepositoryImpl_update table_orm ''zz'' [(''createdAt'', Timestamp 7)] ?t
         = (Inl (Error ''Entity zz not found''), ?t)" by simp
  from g inst [THEN conjunct2, THEN conjunct1]
  have 2: "Service_update ''Room'' (RepositoryImpl table_orm) ''zz'' [(''createdAt'', Timestamp 7)] ?t
         = (Inl (NotFoundException ''Room zz not found''), ?t)" by simp
  show ?thesis unfolding Let_def using 1 2 by simp
qed

lemma or_number_limit:
  "or_number x (Finite 10)
     = (case x of None \<Rightarrow> Finite 10
        | Some n \<Rightarrow> if n = Finite 0 \<or> n = NaN then Finite 10 else n)"
  by (simp add: or_number_def)

lemma or_number_offset:
  "or_number x (Finite 0)
     = (case x of None \<Rightarrow> Finite 0 | Some n \<Rightarrow> if n = NaN then Finite 0 else n)"
  by (auto simp: or_number_def split: option.splits)

lemma or_string_cases:
  "or_string x d = (case x of None \<Rightarrow> d | Some c \<Rightarrow> if c = [] then d else c)"
  by (simp add: or_string_def)

lemma RepositoryImpl_findAll_options:
  "RepositoryImpl_findAll orm q
     = await
         (orm_findAndCount orm
            \<lparr>fo_where = Where_none,
             fo_take = (case dto_limit q of
                          None \<Rightarrow> Finite 10
                        | Some n \<Rightarrow> if n = Finite 0 \<or> n = NaN then Finite 10 else n),
             fo_skip = (case dto_offset q of
                          None \<Rightarrow> Finite 0
                        | Some n \<Rightarrow> if n = NaN then Finite 0 else n),
             fo_order =
               (case dto_sort q of
                  None \<Rightarrow> ''createdAt''
                | Some c \<Rightarrow> if c = [] then ''createdAt'' else c,
                case dto_order q of
                  None \<Rightarrow> ''DESC''
                | Some d \<Rightarrow> if d = [] then ''DESC'' else d)\<rparr>)
         (\<lambda>(data, total).
            resolved
              \<lparr>res_data = data, res_total = total,
               res_limit = (case dto_limit q of
                              None \<Rightarrow> Finite 10
                            | Some n \<Rightarrow> if n = Finite 0 \<or> n = NaN then Finite 10 else n),
               res_offset = (case dto_offset q of
                               None \<Rightarrow> Finite 0
                             | Some n \<Rightarrow> if n = NaN then Finite 0 else n)\<rparr>)"
  unfolding RepositoryImpl_findAll_def Let_def or_number_limit or_number_offset or_string_cases ..

lemma RepositoryImpl_findWithFilter_options:
  "RepositoryImpl_findWithFilter orm q
     = await
         (orm_findAndCount orm
            \<lparr>fo_where = (case dto_search q of
                           None \<Rightarrow> Where_none
                         | Some x \<Rightarrow> if x = [] then Where_none
                                     else Where_ILike ''guestName'' (''%'' @ x @ ''%'')),
             fo_take = (case dto_limit q of
                          None \<Rightarrow> Finite 10
                        | Some n \<Rightarrow> if n = Finite 0 \<or> n = NaN then Finite 10 else n),
             fo_skip = (case dto_offset q of
                          None \<Rightarrow> Finite 0
                        | Some n \<Rightarrow> if n = NaN then Finite 0 else n),
             fo_order =
               (case dto_sort q of
                  None \<Rightarrow> ''createdAt''
                | Some c \<Rightarrow> if c = [] then ''createdAt'' else c,
                case dto_order q of
                  None \<Rightarrow> ''DESC''
                | Some d \<Rightarrow> if d = [] then ''DESC'' else d)\<rparr>)
         (\<lambda>(data, total).
            resolved
              \<lparr>res_data = data, res_total = total,
               res_limit = (case dto_limit q of
                              None \<Rightarrow> Finite 10
                            | Some n \<Rightarrow> if n = Finite 0 \<or> n = NaN then Finite 10 else n),
               res_offset = (case dto_offset q of
                               None \<Rightarrow> Finite 0
                             | Some n \<Rightarrow> if n = NaN then Finite 0 else n)\<rparr>)"
  unfolding RepositoryImpl_findWithFilter_def Let_def or_number_limit or_number_offset
    or_string_cases search_where_def ..

text \<open>
  Claim C10. In the adapter, \<open>findAll\<close> and \<open>findWithFilter\<close> call \<open>findAndCount\<close> of
  the persistence layer once, with the options built from the request in which every
  falsy pagination value is replaced by the default and every other value is passed as
  given: take is 10 for a limit that is absent, 0 or NaN, skip is 0 for an offset that is
  absent or NaN, the order is by \<^verbatim>\<open>createdAt\<close> for a sort that is absent or empty and
  \<^verbatim>\<open>DESC\<close> for an order that is absent or empty; the result reports the same limit and
  offset. In particular a request with limit 0 is run as take 10 and reported as limit
  10, and is the same call as the request with limit 10. This holds for every
  persistence layer.
\<close>

theorem adapter_replaces_falsy_values:
  "RepositoryImpl_findAll orm p
     = await
         (orm_findAndCount orm
            \<lparr>fo_where = Where_none,
             fo_take = (case dto_limit p of
                          None \<Rightarrow> Finite 10
                        | Some n \<Rightarrow> if n = Finite 0 \<or> n = NaN then Finite 10 else n),
             fo_skip = (case dto_offset p of
                          None \<Rightarrow> Finite 0
                        | Some n \<Rightarrow> if n = NaN then Finite 0 else n),
             fo_order =
               (case dto_sort p of
                  None \<Rightarrow> ''createdAt''
                | Some c \<Rightarrow> if c = [] then ''createdAt'' else c,
                case dto_order p of
                  None \<Rightarrow> ''DESC''
                | Some d \<Rightarrow> if d = [] then ''DESC'' else d)\<rparr>)
         (\<lambda>(data, total).
            resolved
              \<lparr>res_data = data, res_total = total,
               res_limit = (case dto_limit p of
                              None \<Rightarrow> Finite 10
                            | Some n \<Rightarrow> if n = Finite 0 \<or> n = NaN then Finite 10 else n),
               res_offset = (case dto_offset p of
                               None \<Rightarrow> Finite 0
                             | Some n \<Rightarrow> if n = NaN then Finite 0 else n)\<rparr>)
   \<and> RepositoryImpl_findWithFilter orm f
     = await
         (orm_findAndCount orm
            \<lparr>fo_where = (case dto_search f of
                           None \<Rightarrow> Where_none
                         | Some x \<Rightarrow> if x = [] then Where_none
                                     else Where_ILike ''guestName'' (''%'' @ x @ ''%'')),
             fo_take = (case dto_limit f of
                          None \<Rightarrow> Finite 10
                        | Some n \<Rightarrow> if n = Finite 0 \<or> n = NaN then Finite 10 else n),
             fo_skip = (case dto_offset f of
                          None \<Rightarrow> Finite 0
                        | Some n \<Rightarrow> if n = NaN then Finite 0 else n),
             fo_order =
               (case dto_sort f of
                  None \<Rightarrow> ''createdAt''
                | Some c \<Rightarrow> if c = [] then ''createdAt'' else c,
                case dto_order f of
                  None \<Rightarrow> ''DESC''
                | Some d \<Rightarrow> if d = [] then ''DESC'' else d)\<rparr>)
         (\<lambda>(data, total).
            resolved
              \<lparr>res_data = data, res_total = total,
               res_limit = (case dto_limit f of
                              None \<Rightarrow> Finite 10
                            | Some n \<Rightarrow> if n = Finite 0 \<or> n = NaN then Finite 10 else n),
               res_offset = (case dto_offset f of
                               None \<Rightarrow> Finite 0
                             | Some n \<Rightarrow> if n = NaN then Finite 0 else n)\<rparr>)
   \<and> RepositoryImpl_findAll orm
       \<lparr>dto_limit = Some (Finite 0), dto_offset = Some (Finite 0), dto_sort = Some [],
        dto_order = Some []\<rparr>
     = await
         (orm_findAndCount orm
            \<lparr>fo_where = Where_none, fo_take = Finite 10, fo_skip = Finite 0,
             fo_order = (''createdAt'', ''DESC'')\<rparr>)
         (\<lambda>(data, total).
            resolved
              \<lparr>res_data = data, res_total = total, res_limit = Finite 10,
               res_offset = Finite 0\<rparr>)
   \<and> RepositoryImpl_findWithFilter orm
       \<lparr>dto_limit = Some (Finite 0), dto_offset = Some (Finite 0), dto_sort = Some [],
        dto_order = Some [], dto_search = search\<rparr>
     = await
         (orm_findAndCount orm
            \<lparr>fo_where = search_where search, fo_take = Finite 10, fo_skip = Finite 0,
             fo_order = (''createdAt'', ''DESC'')\<rparr>)
         (\<lambda>(data, total).
            resolved
              \<lparr>res_data = data, res_total = total, res_limit = Finite 10,
               res_offset = Finite 0\<rparr>)
   \<and> RepositoryImpl_findAll orm (p\<lparr>dto_limit := Some (Finite 0)\<rparr>)
     = RepositoryImpl_findAll orm (p\<lparr>dto_limit := Some (Finite 10)\<rparr>)
   \<and> RepositoryImpl_findAll orm (p\<lparr>dto_limit := Some NaN\<rparr>)
     = RepositoryImpl_findAll orm (p\<lparr>dto_limit := Some (Finite 10)\<rparr>)
   \<and> RepositoryImpl_findAll orm (p\<lparr>dto_limit := None\<rparr>)
     = RepositoryImpl_findAll orm (p\<lparr>dto_limit := Some (Finite 10)\<rparr>)
   \<and> RepositoryImpl_findAll orm (p\<lparr>dto_offset := None\<rparr>)
     = RepositoryImpl_findAll orm (p\<lparr>dto_offset := Some (Finite 0)\<rparr>)
   \<and> RepositoryImpl_findAll orm (p\<lparr>dto_offset := Some NaN\<rparr>)
     = RepositoryImpl_findAll orm (p\<lparr>dto_offset := Some (Finite 0)\<rparr>)
   \<and> RepositoryImpl_findAll orm (p\<lparr>dto_sort := Some []\<rparr>)
     = RepositoryImpl_findAll orm (p\<lparr>dto_sort := Some ''createdAt''\<rparr>)
   \<and> RepositoryImpl_findAll orm (p\<lparr>dto_sort := None\<rparr>)
     = RepositoryImpl_findAll orm (p\<lparr>dto_sort := Some ''createdAt''\<rparr>)
   \<and> RepositoryImpl_findAll orm (p\<lparr>dto_order := Some []\<rparr>)
     = RepositoryImpl_findAll orm (p\<lparr>dto_order := Some ''DESC''\<rparr>)
   \<and> RepositoryImpl_findAll orm (p\<lparr>dto_order := None\<rparr>)
     = RepositoryImpl_findAll orm (p\<lparr>dto_order := Some ''DESC''\<rparr>)
   \<and> RepositoryImpl_findWithFilter orm (f\<lparr>dto_limit := Some (Finite 0)\<rparr>)
     = RepositoryImpl_findWithFilter orm (f\<lparr>dto_limit := Some (Finite 10)\<rparr>)
   \<and> RepositoryImpl_findWithFilter orm (f\<lparr>dto_limit := Some NaN\<rparr>)
     = RepositoryImpl_findWithFilter orm (f\<lparr>dto_limit := Some (Finite 10)\<rparr>)
   \<and> RepositoryImpl_findWithFilter orm (f\<lparr>dto_limit := None\<rparr>)
     = RepositoryImpl_findWithFilter orm (f\<lparr>dto_limit := Some (Finite 10)\<rparr>)
   \<and> RepositoryImpl_findWithFilter orm (f\<lparr>dto_offset := None\<rparr>)
     = RepositoryImpl_findWithFilter orm (f\<lparr>dto_offset := Some (Finite 0)\<rparr>)
   \<and> RepositoryImpl_findWithFilter orm (f\<lparr>dto_offset := Some NaN\<rparr>)
     = RepositoryImpl_findWithFilter orm (f\<lparr>dto_offset := Some (Finite 0)\<rparr>)
   \<and> RepositoryImpl_findWithFilter orm (f\<lparr>dto_sort := Some []\<rparr>)
     = RepositoryImpl_findWithFilter orm (f\<lparr>dto_sort := Some ''createdAt''\<rparr>)
   \<and> RepositoryImpl_findWithFilter orm (f\<lparr>dto_sort := None\<rparr>)
     = RepositoryImpl_findWithFilter orm (f\<lparr>dto_sort := Some ''createdAt''\<rparr>)
   \<and> RepositoryImpl_findWithFilter orm (f\<lparr>dto_order := Some []\<rparr>)
     = RepositoryImpl_findWithFilter orm (f\<lparr>dto_order := Some ''DESC''\<rparr>)
   \<and> RepositoryImpl_findWithFilter orm (f\<lparr>dto_order := None\<rparr>)
     = RepositoryImpl_findWithFilter orm (f\<lparr>dto_order := Some ''DESC''\<rparr>)"
  by (intro conjI, rule RepositoryImpl_findAll_options,
      rule RepositoryImpl_findWithFilter_options)
    (simp_all add: RepositoryImpl_findAll_options RepositoryImpl_findWithFilter_options
      search_where_def)

theorem adapter_replaces_falsy_values_witness:
  "(let t = \<lparr>tbl_rows =
               [\<lparr>ent_id = ''a1'', createdAt = 100, updatedAt = 100, deletedAt = None\<rparr>,
                \<lparr>ent_id = ''b2'', createdAt = 200, updatedAt = 250, deletedAt = None\<rparr>],
             tbl_now = 500\<rparr>
    in RepositoryImpl_findAll table_orm
         \<lparr>dto_limit = Some (Finite 0), dto_offset = Some (Finite 0),
          dto_sort = Some ''createdAt'', dto_order = Some ''ASC''\<rparr> t
       = (Inr \<lparr>res_data =
                 [\<lparr>ent_id = ''a1'', createdAt = 100, updatedAt = 100, deletedAt = None\<rparr>,
                  \<lparr>ent_id = ''b2'', createdAt = 200, updatedAt = 250, deletedAt = None\<rparr>],
               res_total = 2, res_limit = Finite 10, res_offset = Finite 0\<rparr>, t)
       \<and> RepositoryImpl_findAll table_orm
         \<lparr>dto_limit = Some (Finite 1), dto_offset = Some (Finite 1),
          dto_sort = Some ''createdAt'', dto_order = Some ''ASC''\<rparr> t
       = (Inr \<lparr>res_data =
                 [\<lparr>ent_id = ''b2'', createdAt = 200, updatedAt = 250, deletedAt = None\<rparr>],
               res_total = 2, res_limit = Finite 1, res_offset = Finite 1\<rparr>, t))"
proof -
  let ?t = "\<lparr>tbl_rows =
               [\<lparr>ent_id = ''a1'', createdAt = 100, updatedAt = 100, deletedAt = None\<rparr>,
                \<lparr>ent_id = ''b2'', createdAt = 200, updatedAt = 250, deletedAt = None\<rparr>],
             tbl_now = 500\<rparr>"
  let ?p = "\<lparr>dto_limit = Some (Finite 0), dto_offset = Some (Finite 0),
          dto_sort = Some ''createdAt'', dto_order = Some ''ASC''\<rparr>"
  let ?q = "\<lparr>dto_limit = Some (Finite 1), dto_offset = Some (Finite 1),
          dto_sort = Some ''createdAt'', dto_order = Some ''ASC''\<rparr>"
  from adapter_replaces_falsy_values [where orm = table_orm and p = ?p, THEN conjunct1]
  have 1: "RepositoryImpl_findAll table_orm ?p ?t
       = (Inr \<lparr>res_data =
                 [\<lparr>ent_id = ''a1'', createdAt = 100, updatedAt = 100, deletedAt = None\<rparr>,
                  \<lparr>ent_id = ''b2'', createdAt = 200, updatedAt = 250, deletedAt = None\<rparr>],
               res_total = 2, res_limit = Finite 10, res_offset = Finite 0\<rparr>, ?t)"
    by (simp add: promise_defs table_defs)
  from adapter_replaces_falsy_values [where orm = table_orm and p = ?q, THEN conjunct1]
  have 2: "RepositoryImpl_findAll table_orm ?q ?t
       = (Inr \<lparr>res_data =
                 [\<lparr>ent_id = ''b2'', createdAt = 200, updatedAt = 250, deletedAt = None\<rparr>],
               res_total = 2, res_limit = Finite 1, res_offset = Finite 1\<rparr>, ?t)"
    by (simp add: promise_defs table_defs)
  show ?thesis unfolding Let_def using 1 2 by simp
qed

text \<open>
  Claim C8, as amended. The pagination request has the defaults limit 10, offset 0, sort
  \<^verbatim>\<open>createdAt\<close>, order \<^verbatim>\<open>DESC\<close>; its validation accepts a limit exactly when it is a
  number of at least 1 and an offset exactly when it is a number of at least 0 (absent
  values pass), whole or not. With the four fields absent, the adapter's \<open>findAll\<close> and
  \<open>findWithFilter\<close> ask the persistence layer for take 10, skip 0, ordered by
  \<^verbatim>\<open>createdAt\<close> \<^verbatim>\<open>DESC\<close>, and report limit 10 and offset 0; the service's listing
  operations then behave as on a request that carries the defaults. The claim has limit
  and offset constrained to integers; the class asks for numbers and for a minimum only.
\<close>

theorem pagination_defaults:
  "new_PaginationDto =
     \<lparr>dto_limit = Some (Finite 10), dto_offset = Some (Finite 0),
      dto_sort = Some ''createdAt'', dto_order = Some ''DESC''\<rparr>
   \<and> (validate_PaginationDto p
        = ((\<forall>n. dto_limit p = Some n \<longrightarrow> n = Infinity \<or> (\<exists>x. n = Finite x \<and> 1 \<le> x))
           \<and> (\<forall>n. dto_offset p = Some n \<longrightarrow> n = Infinity \<or> (\<exists>x. n = Finite x \<and> 0 \<le> x))))
   \<and> RepositoryImpl_findAll orm
        (p\<lparr>dto_limit := None, dto_offset := None, dto_sort := None, dto_order := None\<rparr>)
      = await
          (orm_findAndCount orm
             \<lparr>fo_where = Where_none, fo_take = Finite 10, fo_skip = Finite 0,
              fo_order = (''createdAt'', ''DESC'')\<rparr>)
          (\<lambda>(data, total).
             resolved
               \<lparr>res_data = data, res_total = total, res_limit = Finite 10,
                res_offset = Finite 0\<rparr>)
   \<and> RepositoryImpl_findWithFilter orm
        (f\<lparr>dto_limit := None, dto_offset := None, dto_sort := None, dto_order := None\<rparr>)
      = await
          (orm_findAndCount orm
             \<lparr>fo_where = search_where (dto_search f), fo_take = Finite 10, fo_skip = Finite 0,
              fo_order = (''createdAt'', ''DESC'')\<rparr>)
          (\<lambda>(data, total).
             resolved
               \<lparr>res_data = data, res_total = total, res_limit = Finite 10,
                res_offset = Finite 0\<rparr>)
   \<and> Service_findAll (RepositoryImpl orm)
        \<lparr>dto_limit = None, dto_offset = None, dto_sort = None, dto_order = None\<rparr>
      = Service_findAll (RepositoryImpl orm) new_PaginationDto
   \<and> Service_findWithFilter (RepositoryImpl orm)
        \<lparr>dto_limit = None, dto_offset = None, dto_sort = None, dto_order = None,
         dto_search = search\<rparr>
      = Service_findWithFilter (RepositoryImpl orm)
          \<lparr>dto_limit = Some (Finite 10), dto_offset = Some (Finite 0),
           dto_sort = Some ''createdAt'', dto_order = Some ''DESC'', dto_search = search\<rparr>"
proof -
  have v: "validate_PaginationDto p
        = ((\<forall>n. dto_limit p = Some n \<longrightarrow> n = Infinity \<or> (\<exists>x. n = Finite x \<and> 1 \<le> x))
           \<and> (\<forall>n. dto_offset p = Some n \<longrightarrow> n = Infinity \<or> (\<exists>x. n = Finite x \<and> 0 \<le> x)))"
    by (simp add: validate_PaginationDto_def IsOptional_def Min_validator_iff IsString_def
        split: option.splits)
  show ?thesis
    by (simp add: v new_PaginationDto_def)
      (simp add: Service_findAll_def Service_findWithFilter_def RepositoryImpl_def
        RepositoryImpl_findAll_def RepositoryImpl_findWithFilter_def or_number_def or_string_def
        Let_def)
qed

theorem pagination_defaults_witness:
  "(let t = \<lparr>tbl_rows =
               [\<lparr>ent_id = ''a1'', createdAt = 100, updatedAt = 100, deletedAt = None\<rparr>,
                \<lparr>ent_id = ''b2'', createdAt = 200, updatedAt = 250, deletedAt = None\<rparr>],
             tbl_now = 500\<rparr>
    in validate_PaginationDto
         \<lparr>dto_limit = Some (Finite 1), dto_offset = Some (Finite 0), dto_sort = None,
          dto_order = None\<rparr>
       \<and> \<not> validate_PaginationDto
         \<lparr>dto_limit = Some (Finite 0), dto_offset = Some (Finite 0), dto_sort = None,
          dto_order = None\<rparr>
       \<and> \<not> validate_PaginationDto
         \<lparr>dto_limit = None, dto_offset = Some (Finite (- 1)), dto_sort = None,
          dto_order = None\<rparr>
       \<and> RepositoryImpl_findAll table_orm
         \<lparr>dto_limit = None, dto_offset = None, dto_sort = None, dto_order = None\<rparr> t
       = (Inr \<lparr>res_data =
                 [\<lparr>ent_id = ''b2'', createdAt = 200, updatedAt = 250, deletedAt = None\<rparr>,
                  \<lparr>ent_id = ''a1'', createdAt = 100, updatedAt = 100, deletedAt = None\<rparr>],
               res_total = 2, res_limit = Finite 10, res_offset = Finite 0\<rparr>, t))"
proof -
  let ?t = "\<lparr>tbl_rows =
               [\<lparr>ent_id = ''a1'', createdAt = 100, updatedAt = 100, deletedAt = None\<rparr>,
                \<lparr>ent_id = ''b2'', createdAt = 200, updatedAt = 250, deletedAt = None\<rparr>],
             tbl_now = 500\<rparr>"
  let ?none = "\<lparr>dto_limit = None, dto_offset = None, dto_sort = None, dto_order = None\<rparr>"
  note inst = pagination_defaults [THEN conjunct2]
  have 1: "validate_PaginationDto
         \<lparr>dto_limit = Some (Finite 1), dto_offset = Some (Finite 0), dto_sort = None,
          dto_order = None\<rparr>"
    by (simp add: inst [THEN conjunct1])
  have 2: "\<not> validate_PaginationDto
         \<lparr>dto_limit = Some (Finite 0), dto_offset = Some (Finite 0), dto_sort = None,
          dto_order = None\<rparr>"
    by (simp add: inst [THEN conjunct1])
  have 3: "\<not> validate_PaginationDto
         \<lparr>dto_limit = None, dto_offset = Some (Finite (- 1)), dto_sort = None,
          dto_order = None\<rparr>"
    by (simp add: inst [THEN conjunct1])
  from pagination_defaults
         [where orm = table_orm and p = ?none, THEN conjunct2, THEN conjunct2, THEN conjunct1]
  have 4: "RepositoryImpl_findAll table_orm ?none ?t
       = (Inr \<lparr>res_data =
                 [\<lparr>ent_id = ''b2'', createdAt = 200, updatedAt = 250, deletedAt = None\<rparr>,
                  \<lparr>ent_id = ''a1'', createdAt = 100, updatedAt = 100, deletedAt = None\<rparr>],
               res_total = 2, res_limit = Finite 10, res_offset = Finite 0\<rparr>, ?t)"
    by (simp add: promise_defs table_defs)
  show ?thesis unfolding Let_def using 1 2 3 4 by simp
qed

text \<open>
  The claim C8 as stated fails: a limit of 3/2 with an offset of 1/2 passes validation,
  and neither is an integer; the positive infinity passes too.
\<close>

theorem pagination_whole_numbers_counterexample:
  "validate_PaginationDto
     \<lparr>dto_limit = Some (Finite (3 / 2)), dto_offset = Some (Finite (1 / 2)), dto_sort = None,
      dto_order = None\<rparr>
   \<and> (3 / 2 :: real) \<notin> \<int>
   \<and> (1 / 2 :: real) \<notin> \<int>
   \<and> whole (Finite (3 / 2)) = None
   \<and> whole (Finite (1 / 2)) = None
   \<and> validate_PaginationDto
     \<lparr>dto_limit = Some Infinity, dto_offset = Some Infinity, dto_sort = None,
      dto_order = None\<rparr>"
proof -
  have a: "(3 / 2 :: real) \<notin> \<int>"
  proof
    assume "(3 / 2 :: real) \<in> \<int>"
    then obtain k :: int where "(3 / 2 :: real) = of_int k"
      by (auto elim: Ints_cases)
    then have "real_of_int (2 * k) = real_of_int 3" by simp
    then have "2 * k = 3" by (simp only: of_int_eq_iff)
    then show False by presburger
  qed
  have b: "(1 / 2 :: real) \<notin> \<int>"
  proof
    assume "(1 / 2 :: real) \<in> \<int>"
    then obtain k :: int where "(1 / 2 :: real) = of_int k"
      by (auto elim: Ints_cases)
    then have "real_of_int (2 * k) = real_of_int 1" by simp
    then have "2 * k = 1" by (simp only: of_int_eq_iff)
    then show False by presburger
  qed
  have c: "\<lfloor>3 / 2 :: real\<rfloor> = 1" "\<lfloor>1 / 2 :: real\<rfloor> = 0"
    by (simp_all add: floor_eq_iff)
  show ?thesis
    using a b
    by (simp add: validate_PaginationDto_def IsOptional_def IsString_def c)
qed


lemma sublist_unlines:
  "l \<in> set ls \<Longrightarrow> sublist l (unlines ls)"
proof (induction ls)
  case Nil
  then show ?case by simp
next
  case (Cons x xs)
  have unfold: "unlines (x # xs) = x @ [CHR 0x0A] @ unlines xs"
    by (simp add: unlines_def)
  show ?case
  proof (cases "l = x")
    case True
    then show ?thesis unfolding unfold by (simp only: sublist_append_rightI)
  next
    case False
    with Cons have "sublist l (unlines xs)" by simp
    then have "sublist l ((x @ [CHR 0x0A]) @ unlines xs)"
      by (simp only: sublist_append) simp
    then show ?thesis unfolding unfold by simp
  qed
qed

text \<open>
  Claim C4. For every resource name, the text of the generated adapter builds its search
  condition on the fixed property \<^verbatim>\<open>guestName\<close>, with the pattern \<^verbatim>\<open>%search%\<close> under
  \<^verbatim>\<open>ILike\<close>, while the generated entity declares the columns id, createdAt, updatedAt
  and deletedAt, and \<^verbatim>\<open>guestName\<close> is none of them. So a non-empty search makes
  \<open>findWithFilter\<close> pass a condition on \<^verbatim>\<open>guestName\<close> to the persistence layer, which the
  in-memory table refuses as a property the entity does not have.
\<close>

theorem search_targets_guestName:
  "sublist ''const where: any = search ? { guestName: ILike(`%${search}%`) } : {};''
     (repository_impl_ts name Name)
   \<and> sublist ''  id: string;'' (entity_ts name Name)
   \<and> sublist ''  createdAt: Date;'' (entity_ts name Name)
   \<and> sublist ''  updatedAt: Date;'' (entity_ts name Name)
   \<and> sublist ''  deletedAt?: Date;'' (entity_ts name Name)
   \<and> ''guestName'' \<notin> set entity_columns
   \<and> (s \<noteq> [] \<longrightarrow> search_where (Some s) = Where_ILike ''guestName'' (''%'' @ s @ ''%''))
   \<and> (dto_search f = Some s \<and> s \<noteq> [] \<longrightarrow>
        RepositoryImpl_findWithFilter orm f
        = await
            (orm_findAndCount orm
               \<lparr>fo_where = Where_ILike ''guestName'' (''%'' @ s @ ''%''),
                fo_take = or_number (dto_limit f) (Finite 10), fo_skip = or_number (dto_offset f) (Finite 0),
                fo_order = (or_string (dto_sort f) ''createdAt'', or_string (dto_order f) ''DESC'')\<rparr>)
            (\<lambda>(data, total).
               resolved
                 \<lparr>res_data = data, res_total = total, res_limit = or_number (dto_limit f) (Finite 10),
                  res_offset = or_number (dto_offset f) (Finite 0)\<rparr>))
   \<and> (dto_search f = Some s \<and> s \<noteq> [] \<longrightarrow>
        RepositoryImpl_findWithFilter table_orm f t
        = (Inl (EntityPropertyNotFoundError ''guestName''), t))"
proof -
  have line: "sublist ''    const where: any = search ? { guestName: ILike(`%${search}%`) } : {};''
     (repository_impl_ts name Name)"
    unfolding repository_impl_ts_def by (rule sublist_unlines) simp
  have "sublist ''const where: any = search ? { guestName: ILike(`%${search}%`) } : {};''
          (''    '' @ ''const where: any = search ? { guestName: ILike(`%${search}%`) } : {};'')"
    by (rule sublist_append_leftI)
  then have "sublist ''const where: any = search ? { guestName: ILike(`%${search}%`) } : {};''
          ''    const where: any = search ? { guestName: ILike(`%${search}%`) } : {};''"
    by simp
  then have 1: "sublist ''const where: any = search ? { guestName: ILike(`%${search}%`) } : {};''
     (repository_impl_ts name Name)"
    using line by (rule sublist_order.order_trans)
  have 2: "sublist ''  id: string;'' (entity_ts name Name)"
    unfolding entity_ts_def by (rule sublist_unlines) simp
  have 3: "sublist ''  createdAt: Date;'' (entity_ts name Name)"
    unfolding entity_ts_def by (rule sublist_unlines) simp
  have 4: "sublist ''  updatedAt: Date;'' (entity_ts name Name)"
    unfolding entity_ts_def by (rule sublist_unlines) simp
  have 5: "sublist ''  deletedAt?: Date;'' (entity_ts name Name)"
    unfolding entity_ts_def by (rule sublist_unlines) simp
  have 6: "''guestName'' \<notin> set entity_columns"
    by (simp add: entity_columns_def)
  have 7: "search_where (Some s) = Where_ILike ''guestName'' (''%'' @ s @ ''%'')" if "s \<noteq> []"
    using that by (simp add: search_where_def)
  have 8: "RepositoryImpl_findWithFilter orm f
        = await
            (orm_findAndCount orm
               \<lparr>fo_where = Where_ILike ''guestName'' (''%'' @ s @ ''%''),
                fo_take = or_number (dto_limit f) (Finite 10), fo_skip = or_number (dto_offset f) (Finite 0),
                fo_order = (or_string (dto_sort f) ''createdAt'', or_string (dto_order f) ''DESC'')\<rparr>)
            (\<lambda>(data, total).
               resolved
                 \<lparr>res_data = data, res_total = total, res_limit = or_number (dto_limit f) (Finite 10),
                  res_offset = or_number (dto_offset f) (Finite 0)\<rparr>)"
    if "dto_search f = Some s" "s \<noteq> []" for orm :: "'c Repository"
    using that by (simp add: RepositoryImpl_findWithFilter_def search_where_def Let_def)
  have 9: "RepositoryImpl_findWithFilter table_orm f t
        = (Inl (EntityPropertyNotFoundError ''guestName''), t)"
    if "dto_search f = Some s" "s \<noteq> []"
    using that
    by (simp add: 8 [OF that] promise_defs table_orm_def table_findAndCount_def
        entity_columns_def)
  show ?thesis using 1 2 3 4 5 6 7 8 9 by blast
qed

theorem search_targets_guestName_witness:
  "sublist ''const where: any = search ? { guestName: ILike(`%${search}%`) } : {};''
     (repository_impl_ts ''room'' ''Room'')
   \<and> search_where (Some ''ann'') = Where_ILike ''guestName'' ''%ann%''
   \<and> RepositoryImpl_findWithFilter table_orm
        \<lparr>dto_limit = None, dto_offset = None, dto_sort = None, dto_order = None,
         dto_search = Some ''ann''\<rparr>
        \<lparr>tbl_rows =
           [\<lparr>ent_id = ''a1'', createdAt = 100, updatedAt = 100, deletedAt = None\<rparr>],
         tbl_now = 500\<rparr>
      = (Inl (EntityPropertyNotFoundError ''guestName''),
         \<lparr>tbl_rows =
           [\<lparr>ent_id = ''a1'', createdAt = 100, updatedAt = 100, deletedAt = None\<rparr>],
          tbl_now = 500\<rparr>)"
  using search_targets_guestName
    [where name = "''room''" and Name = "''Room''" and s = "''ann''" and orm = table_orm
       and f = "\<lparr>dto_limit = None, dto_offset = None, dto_sort = None, dto_order = None,
         dto_search = Some ''ann''\<rparr>"
       and t = "\<lparr>tbl_rows =
           [\<lparr>ent_id = ''a1'', createdAt = 100, updatedAt = 100, deletedAt = None\<rparr>],
         tbl_now = 500\<rparr>"]
  by (simp add: promise_defs table_defs)

subsection \<open>The in-memory table orders as asked\<close>















end
